theory Spec2Isabelle
  imports Main "HOL-Library.Sublist"
begin

unbundle bit_operations_syntax

section \<open>Python values, exceptions and text helpers\<close>

text \<open>
  The program is a Python script (\<^verbatim>\<open>93-0000020.py\<close>, V1.4.0, and its V1.01 predecessor).
  Python integers are unbounded; the register words delivered by the Modbus library are
  non-negative, so they are modelled as \<^typ>\<open>nat\<close> and \<^verbatim>\<open>>>\<close> / \<^verbatim>\<open>&\<close> as
  \<^const>\<open>drop_bit\<close> / \<open>AND\<close>. Text is \<^typ>\<open>string\<close>, one \<^typ>\<open>char\<close> per code point
  below 256. A raised exception is the \<open>Inl\<close> branch of a sum.
\<close>

datatype exn_kind =
    KeyError | TypeError | ValueError | IndexError | NameError | SyntaxError
  | AttributeError | OverflowError | SystemExit
  | IllegalRequestError | InvalidResponseError | NoResponseError
  | OtherError

datatype exn = Exn exn_kind string

fun exn_msg :: "exn \<Rightarrow> string" where
  "exn_msg (Exn k m) = m"

fun kind_of :: "exn \<Rightarrow> exn_kind" where
  "kind_of (Exn k m) = k"

definition exn_bind :: "exn + 'a \<Rightarrow> ('a \<Rightarrow> exn + 'b) \<Rightarrow> exn + 'b" where
  "exn_bind m f = (case m of Inl e \<Rightarrow> Inl e | Inr x \<Rightarrow> f x)"

definition idx :: "'a list \<Rightarrow> nat \<Rightarrow> exn + 'a" where
  \<comment> \<open>\<^verbatim>\<open>xs[i]\<close> for a non-negative index\<close>
  "idx xs i = (if i < length xs then Inr (xs ! i)
               else Inl (Exn IndexError ''list index out of range''))"

definition sq :: string where
  "sq = [CHR 0x27]"

definition dq :: string where
  "dq = [CHR 0x22]"

definition nl :: string where
  "nl = [CHR 0x0A]"

definition hex_digit :: "nat \<Rightarrow> char" where
  "hex_digit d = ''0123456789abcdef'' ! (d mod 16)"

fun str_nat :: "nat \<Rightarrow> string" where
  \<comment> \<open>\<^verbatim>\<open>str(n)\<close> of a non-negative integer\<close>
  "str_nat n = (if n < 10 then [hex_digit n] else str_nat (n div 10) @ [hex_digit (n mod 10)])"

declare str_nat.simps [simp del]

definition str_int :: "int \<Rightarrow> string" where
  \<comment> \<open>\<^verbatim>\<open>str(n)\<close> of an integer\<close>
  "str_int n = (if n < 0 then ''-'' @ str_nat (nat (- n)) else str_nat (nat n))"

fun hex_nat :: "nat \<Rightarrow> string" where
  "hex_nat n = (if n < 16 then [hex_digit n] else hex_nat (n div 16) @ [hex_digit (n mod 16)])"

declare hex_nat.simps [simp del]

definition py_hex :: "nat \<Rightarrow> string" where
  \<comment> \<open>\<^verbatim>\<open>hex(n)\<close> of a non-negative integer\<close>
  "py_hex n = ''0x'' @ hex_nat n"

definition fmt_02x :: "nat \<Rightarrow> string" where
  \<comment> \<open>\<^verbatim>\<open>f'{n:02x}'\<close>\<close>
  "fmt_02x n = (if n < 16 then ''0'' @ hex_nat n else hex_nat n)"

fun py_join :: "string \<Rightarrow> string list \<Rightarrow> string" where
  "py_join sep [] = []"
| "py_join sep [x] = x"
| "py_join sep (x # y # ys) = x @ sep @ py_join sep (y # ys)"

definition py_strip_chars :: "string \<Rightarrow> string \<Rightarrow> string" where
  \<comment> \<open>\<^verbatim>\<open>s.strip(cs)\<close>\<close>
  "py_strip_chars cs s =
     rev (dropWhile (\<lambda>c. c \<in> set cs) (rev (dropWhile (\<lambda>c. c \<in> set cs) s)))"

definition str_opt :: "string option \<Rightarrow> string" where
  \<comment> \<open>\<^verbatim>\<open>f'{v}'\<close> of the result of \<^verbatim>\<open>dict.get\<close> on a table of names\<close>
  "str_opt v = (case v of None \<Rightarrow> ''None'' | Some s \<Rightarrow> s)"

definition truthy_opt :: "string option \<Rightarrow> bool" where
  \<comment> \<open>\<^verbatim>\<open>if v:\<close> on a name or \<^verbatim>\<open>None\<close>\<close>
  "truthy_opt v = (case v of None \<Rightarrow> False | Some s \<Rightarrow> s \<noteq> [])"

section \<open>Register catalog\<close>

type_synonym regmap = "(string \<times> nat) list"

definition hypr6000_regs :: regmap where
  "hypr6000_regs = [
    (''BIT'', 0), (''TOTAL_ERRORS'', 1), (''LOG_HEAD'', 2), (''LOG_TAIL'', 3),
    (''LOG_STATUS'', 4), (''LOG_LEVEL'', 5), (''LOG_CODE'', 6), (''LOG_DEVICE'', 7),
    (''LOG_MSG_LEN'', 8), (''LOG_VALUE0'', 9), (''LOG_VALUE1'', 10), (''LOG_VALUE2'', 11),
    (''LOG_VALUE3'', 12), (''LOG1_LEVEL'', 13), (''LOG1_CODE'', 14), (''LOG1_DEVICE'', 15),
    (''LOG1_MSG_LEN'', 16), (''LOG1_VALUE0'', 17), (''LOG1_VALUE1'', 18),
    (''LOG1_VALUE2'', 19), (''LOG1_VALUE3'', 20), (''LOG2_LEVEL'', 21), (''LOG2_CODE'', 22),
    (''LOG2_DEVICE'', 23), (''LOG2_MSG_LEN'', 24), (''LOG2_VALUE0'', 25),
    (''LOG2_VALUE1'', 26), (''LOG2_VALUE2'', 27), (''LOG2_VALUE3'', 28), (''LOG3_LEVEL'', 29),
    (''LOG3_CODE'', 30), (''LOG3_DEVICE'', 31), (''LOG3_MSG_LEN'', 32), (''LOG3_VALUE0'', 33),
    (''LOG3_VALUE1'', 34), (''LOG3_VALUE2'', 35), (''LOG3_VALUE3'', 36),
    (''START_VOLTAGE'', 37), (''START_DELAY'', 38), (''STOP_VOLTAGE'', 39),
    (''STOP_DELAY'', 40), (''CRANK_TIMEOUT'', 41), (''REGULATED_VOLTAGE'', 42),
    (''MAX_CHARGING_CURRENT'', 43), (''LVCO'', 44), (''BUS_VOLTAGE'', 45), (''CURRENTS'', 46),
    (''GEN_CONTROL'', 47), (''AGS_STATUS'', 48), (''AC_INPUT'', 49), (''AMMPS_RESPONSE'', 50),
    (''GEN_WARMUP'', 51), (''WARMUP_STATE'', 52), (''GENERATOR_POWER_SETTINGS'', 53),
    (''AVAILABLE_CURRENT'', 54), (''CHARGER_MODE'', 55), (''PID_KP'', 56), (''PID_KI'', 57),
    (''PID_KD'', 58), (''PID_INPUT'', 59), (''PID_OUTPUT'', 60), (''PID_SET_POINT'', 61),
    (''CHARGING_CURRENT_OFFSET'', 62), (''REGULATED_CURRENT_OFFSET'', 63), (''VERSION'', 64),
    (''TOTAL_REGS_SIZE'', 65)]"

definition proverter_regs :: regmap where
  "proverter_regs = [
    (''Absorb time'', 46), (''Absorb exit amps'', 47), (''Bulk current'', 48),
    (''Absorb voltage'', 49), (''Equalization voltage'', 50), (''Floating voltage'', 51),
    (''Temperature compensation'', 52), (''Battery low voltage'', 53),
    (''Battery over voltage'', 54), (''Low voltage alarm'', 55), (''Reset voltage'', 56),
    (''Low voltage detect time'', 57), (''Low voltage cut off time'', 58),
    (''Charge mode (equalization)'', 59), (''Mode (Online mode)'', 60),
    (''Online option'', 61), (''Reset to Bulk stage'', 62), (''Charging profile'', 63),
    (''Default frequency'', 64), (''Grid input max current'', 65),
    (''Low frequency cut off'', 66), (''Low frequency reset'', 67),
    (''High frequency cut off'', 68), (''High frequency reset'', 69),
    (''Low voltage reset'', 70), (''Low voltage cut off 1'', 71),
    (''Low voltage cut off 2'', 72), (''Low voltage cut off 3'', 73),
    (''Low voltage detect time 1'', 74), (''Low voltage detect time 2'', 75),
    (''Low voltage detect time 3'', 76), (''High voltage reset'', 77),
    (''High voltage cut off 1'', 78), (''High voltage cut off 2'', 79),
    (''High voltage cut off 3'', 80), (''High voltage detect time 1'', 81),
    (''High voltage detect time 2'', 82), (''High voltage detect time 3'', 83),
    (''Gen input maximum current'', 84), (''GS detect time'', 85), (''GEN ON time'', 86),
    (''GEN OFF delay'', 87), (''Battery type'', 88), (''Input OC Protection'', 89),
    (''Input Recovery'', 90), (''Sync. Grid'', 91), (''Sync. GEN'', 92),
    (''Safe Charging'', 93), (''External Charger'', 95), (''Power saving'', 96),
    (''Enter point'', 97), (''Wake up point'', 98), (''Remote switch'', 99),
    (''Relay function'', 100), (''Comm. ID'', 101), (''Buzzer'', 102),
    (''Discharge beep'', 103), (''Default reset'', 104), (''Data log time'', 105),
    (''Temperature unit'', 107), (''Password disable'', 108),
    (''Remote switch delay time'', 109), (''Status of GEN input'', 256),
    (''Frequency of GEN input'', 257), (''Voltage of GEN input'', 258),
    (''Status of Grid input'', 259), (''Frequency of Grid input'', 260),
    (''Voltage of Grid input'', 261), (''Input current'', 262), (''Input VA'', 264),
    (''Input watt'', 266), (''Output frequency'', 268), (''Output voltage'', 269),
    (''Invert/Charge current'', 270), (''Invert/Charge VA'', 272),
    (''Invert/Charge watt'', 274), (''Battery voltage'', 276), (''Battery current'', 277),
    (''External current'', 278), (''Battery temperature'', 279),
    (''Transformer temperature'', 280), (''Bus bar temperature'', 281),
    (''Heat sink temperature'', 282), (''Fan speed'', 283), (''Operating mode'', 284),
    (''Error code'', 285), (''Charge stage'', 286), (''Version'', 287),
    (''Compensating voltage'', 288), (''Control'', 512)]"

text \<open>\<^verbatim>\<open>products\<close>: name, baud rate, Modbus address, register dictionary, write function code.\<close>

definition products :: "(string \<times> nat \<times> nat \<times> regmap \<times> nat) list" where
  "products = [
     (''24VDC HyPR 6000 (20-0104024)'', 57600, 1, hypr6000_regs, 16),
     (''24VDC PRO-Verter 5000-220 AFF1 (20-0104033)'', 9600, 1, proverter_regs, 6)]"

definition resolve :: "regmap \<Rightarrow> string \<Rightarrow> nat option" where
  \<comment> \<open>\<^verbatim>\<open>products[product][3][name]\<close>; \<open>None\<close> is the \<^verbatim>\<open>KeyError\<close>\<close>
  "resolve regs name = map_of regs name"

definition reverse_register :: "regmap \<Rightarrow> nat \<Rightarrow> string" where
  \<comment> \<open>\<^verbatim>\<open>';'.join([k for k, v in regs.items() if v == ret[4]])\<close>\<close>
  "reverse_register regs a = py_join '';'' (map fst (filter (\<lambda>(k, v). v = a) regs))"

section \<open>Frame decoder tables\<close>

definition log_levels :: "string list" where
  "log_levels = [''EMERG'', ''ALERT'', ''CRIT'', ''ERR'', ''WARNING'', ''NOTICE'', ''INFO'',
     ''DEBUG'', ''UNDEF'', ''UNDEF'', ''UNDEF'', ''UNDEF'', ''UNDEF'', ''UNDEF'', ''UNDEF'',
     ''NULL'']"

definition devices :: "string list" where
  "devices = [''CAN_A'', ''CAN_B'', ''RS485'']"

definition pgn_names :: "nat \<Rightarrow> string option" where
  "pgn_names = map_of [(0, ''null''), (1, ''ADDRESS_CLAIMED''), (2, ''J1939_STATUS''),
     (0xFECA, ''Active DTIC''), (0xFF17, ''AdvDCS Response''), (0xFF15, ''Controller 1st PGN''),
     (0xFF19, ''Controller 2nd PGN''), (0xFF22, ''Controller 3rd PGN''),
     (0xFF23, ''Modbus Registers'')]"

definition j1939_statuses :: "nat \<Rightarrow> string option" where
  "j1939_statuses = map_of [(0, ''ADDRESSCLAIM_INIT''), (1, ''ADDRESSCLAIM_INPROGRESS''),
     (2, ''NORMALDATATRAFFIC''), (3, ''ADDRESSCLAIM_FAILED'')]"

definition charger_modes :: "nat \<Rightarrow> string option" where
  "charger_modes = map_of [(0, ''Charging''), (1, ''Standby''), (2, ''Off''), (3, ''Delay'')]"

definition genset_statuses :: "nat \<Rightarrow> string option" where
  "genset_statuses = map_of [(0, ''NOT READY TO CRANK''), (1, ''READY TO CRANK''),
     (2, ''DELAY TO CRANK - WTR KIT''), (3, ''DELAY TO CRANK - GLW PLG''), (4, ''CRANK''),
     (5, ''RUNNING''), (6, ''EMERGENCY STOP''), (7, ''IDLE MODE''), (8, ''POWERING DOWN''),
     (9, ''FACTORY TEST''), (10, ''DELAY TO CRANK - WINTER KIT TEST''),
     (11, ''DELAY TO CRANK - WINTER KIT DETECT''), (12, ''DELAY TO CRANK - ECM DATASAVE''),
     (13, ''RUNNING - SYNCHRONIZING''), (14, ''RUNNING - SYNCHRONIZED''),
     (15, ''RUNNING - LOAD SHARE'')]"

definition control_switch_positions :: "nat \<Rightarrow> string option" where
  "control_switch_positions = map_of [(0, ''Off''), (1, ''Prime and run Aux fuel''),
     (2, ''Prime and run''), (3, ''Start'')]"

definition warmup_states :: "nat \<Rightarrow> string option" where
  "warmup_states = map_of [(0, ''NoAC''), (1, ''WarmingUp''), (2, ''Running'')]"

definition ac_inputs :: "nat \<Rightarrow> string option" where
  "ac_inputs = map_of [(0, ''Not sensed''), (1, ''Sensed'')]"

definition gen_controls :: "nat \<Rightarrow> string option" where
  "gen_controls = map_of [(0, ''Off''), (1, ''Auto''), (5, ''On'')]"

definition red :: string where
  "red = []"

definition black :: string where
  "black = []"

section \<open>Frame decoder: \<^verbatim>\<open>showlog\<close>\<close>

text \<open>
  \<^verbatim>\<open>showlog(ret, show_time, log_handle)\<close> builds two texts from one log entry: \<open>line\<close>
  (for the log file) and \<open>cline\<close> (for the \<^verbatim>\<open>-LOG-\<close> window). The colour escapes
  \<^verbatim>\<open>red\<close> and \<^verbatim>\<open>black\<close> are empty strings in V1.4.0. Each part below returns the pair
  of additions to (\<open>line\<close>, \<open>cline\<close>). \<^verbatim>\<open>regs\<close>, which \<^verbatim>\<open>showlog\<close> reads as a global that
  the module never binds, is a parameter: the register dictionary of the active product.
\<close>

definition showlog_level :: "nat \<Rightarrow> string \<times> string" where
  "showlog_level r0 =
     (if r0 > length log_levels - 1
      then (str_nat r0, red @ str_nat r0 @ black)
      else (log_levels ! r0, log_levels ! r0))"

definition showlog_code :: "nat \<Rightarrow> string \<times> string" where
  "showlog_code r1 =
     (let code = pgn_names r1 in
      if truthy_opt code
      then ('', '' @ str_opt code, '', '' @ str_opt code)
      else ('', '' @ py_hex r1, '', '' @ red @ py_hex r1 @ black))"

definition showlog_device :: "nat \<Rightarrow> string \<times> string" where
  "showlog_device r2 =
     (let device = r2 AND 0x00FF; node = drop_bit 8 r2 in
      if device > length devices - 1
      then ('', illegel device: '' @ str_nat device,
            '', '' @ red @ ''illegel device: '' @ str_nat device @ black)
      else (let l = '', '' @ devices ! device in
            if node > 0 then (l @ '':'' @ fmt_02x node, l @ '':'' @ fmt_02x node)
            else (l, l)))"

definition showlog_bytes :: "nat \<Rightarrow> (string \<times> string) \<times> nat" where
  \<comment> \<open>the text, and the byte count used afterwards\<close>
  "showlog_bytes r3 =
     (if r3 \<le> 8
      then (('', bytes:'' @ str_nat r3, '', bytes:'' @ str_nat r3), r3)
      else (('', bytes(illegal value, max 8):'' @ str_nat r3,
             '', '' @ red @ ''bytes(illegal value, max 8):'' @ str_nat r3 @ black), 8))"

definition showlog_j1939_status :: "nat list \<Rightarrow> exn + string \<times> string" where
  "showlog_j1939_status ret =
     exn_bind (idx ret 4) (\<lambda>r4.
       let j1939_status = j1939_statuses r4 in
       if truthy_opt j1939_status
       then Inr ('', '' @ str_opt j1939_status, '', '' @ str_opt j1939_status)
       else (case j1939_status of
               None \<Rightarrow> Inl (Exn TypeError
                 (sq @ ''NoneType'' @ sq @ '' object cannot be interpreted as an integer''))
             | Some s \<Rightarrow> Inl (Exn TypeError
                 (sq @ ''str'' @ sq @ '' object cannot be interpreted as an integer''))))"

definition showlog_controller1 :: "nat list \<Rightarrow> exn + string \<times> string" where
  "showlog_controller1 ret =
     exn_bind (idx ret 4) (\<lambda>generator_power_settings.
     exn_bind (idx ret 5) (\<lambda>r5.
     exn_bind (idx ret 6) (\<lambda>r6.
     exn_bind (idx ret 7) (\<lambda>lvco.
       let control_voltage = drop_bit 8 r5;
           max_charging_current = r5 AND 0x00FF;
           start_delay = drop_bit 8 r6;
           stop_delay = r6 AND 0x00FF;
           more = '', GENERATOR_POWER_SETTINGS:'' @ str_nat generator_power_settings
                @ '', CONTROL_VOLTAGE:'' @ str_nat control_voltage
                @ '', MAX_CHARGING_CURRENT:'' @ str_nat max_charging_current
                @ '', START_DELAY:'' @ str_nat start_delay
                @ '', STOP_DELAY:'' @ str_nat stop_delay
                @ '', LVCO:'' @ str_nat lvco
       in Inr (more, more)))))"

definition showlog_controller2 :: "nat list \<Rightarrow> exn + string \<times> string" where
  "showlog_controller2 ret =
     exn_bind (idx ret 4) (\<lambda>start_voltage.
     exn_bind (idx ret 5) (\<lambda>stop_voltage.
     exn_bind (idx ret 6) (\<lambda>r6.
     exn_bind (idx ret 7) (\<lambda>regulated_voltage.
       let unregulated_current = drop_bit 8 r6;
           regulated_current = r6 AND 0x00FF;
           more = '', START_VOLTAGE:'' @ str_nat start_voltage
                @ '', STOP_VOLTAGE:'' @ str_nat stop_voltage
                @ '', UNREGULATED_CURRENT:'' @ str_nat unregulated_current
                @ '', REGULATED_CURRENT:'' @ str_nat regulated_current
                @ '', REGULATED_VOLTAGE:'' @ str_nat regulated_voltage
       in Inr (more, more)))))"

definition controller3_bit :: "nat \<Rightarrow> string" where
  \<comment> \<open>In Python \<^verbatim>\<open>&\<close> binds tighter than \<^verbatim>\<open>==\<close>: \<^verbatim>\<open>ret[5] & 0x0002 == 1\<close> is
      \<^verbatim>\<open>(ret[5] & 0x0002) == 1\<close>.\<close>
  "controller3_bit r5 =
     (let bit_low_voltage_warning = (if r5 AND 0x0001 = 1 then ''Low voltage warning'' else '''');
          bit_lvco = (if r5 AND 0x0002 = 1 then ''LVCO'' else '''')
      in py_strip_chars '';'' (py_join '';'' [bit_low_voltage_warning, bit_lvco]))"

definition showlog_controller3 :: "nat list \<Rightarrow> exn + string \<times> string" where
  "showlog_controller3 ret =
     exn_bind (idx ret 4) (\<lambda>battery_voltage.
     exn_bind (idx ret 5) (\<lambda>r5.
     exn_bind (idx ret 6) (\<lambda>r6.
       let charger_mode = charger_modes (drop_bit 8 r5);
           bit = controller3_bit r5;
           charging_current = drop_bit 8 r6;
           gen_control = gen_controls (r6 AND 0x00FF);
           more = '', BATTERY_VOLTAGE:'' @ str_nat battery_voltage
                @ '', CHARGER_MODE:'' @ str_opt charger_mode
                @ '', BIT:'' @ bit
                @ '', CHARGING_CURRENT:'' @ str_nat charging_current
                @ '', GEN_CONTROL:'' @ str_opt gen_control
       in Inr (more, more))))"

definition showlog_modbus :: "regmap \<Rightarrow> nat list \<Rightarrow> exn + string \<times> string" where
  "showlog_modbus regs ret =
     exn_bind (idx ret 4) (\<lambda>r4.
     exn_bind (idx ret 5) (\<lambda>r5.
       let register = reverse_register regs r4;
           val = (if register = ''WARMUP_STATE'' then str_opt (warmup_states r5)
                  else if register = ''AC_INPUT'' then str_opt (ac_inputs r5)
                  else str_nat r5);
           more = '', '' @ register @ '':'' @ val
       in Inr (more, more)))"

definition showlog_advdcs :: "nat list \<Rightarrow> exn + string \<times> string" where
  "showlog_advdcs ret =
     exn_bind (idx ret 4) (\<lambda>r4.
       let genset_status = genset_statuses (drop_bit 8 r4 AND 0x0F);
           control_switch_position =
             control_switch_positions (drop_bit 4 (drop_bit 8 r4 AND 0x40));
           more = '', GENSET_STATUS:'' @ str_opt genset_status
                @ '', CONTROL_SWITCH_POSITION:'' @ str_opt control_switch_position
       in Inr (more, more))"

definition data_word :: "nat \<Rightarrow> string" where
  \<comment> \<open>the body of the loop over \<^verbatim>\<open>ret[4:4 + math.floor(bytes / 2)]\<close>\<close>
  "data_word i = py_hex (drop_bit 8 i) @ '' '' @ py_hex (i AND 0x00FF) @ '' ''"

definition showlog_data :: "nat \<Rightarrow> nat list \<Rightarrow> exn + string \<times> string" where
  \<comment> \<open>\<^verbatim>\<open>math.floor(bytes / 2)\<close> is \<open>bytes div 2\<close>, \<^verbatim>\<open>math.ceil(bytes / 2)\<close> is
      \<open>(bytes + 1) div 2\<close>\<close>
  "showlog_data bytes ret =
     (let words = concat (map data_word (take (bytes div 2) (drop 4 ret))) in
      if bytes mod 2 = 1
      then exn_bind (idx ret (4 + (bytes + 1) div 2)) (\<lambda>w.
             let extra = py_hex (drop_bit 8 w) @ '' '' in
             Inr ('', data: '' @ words @ extra, '', data: '' @ words @ extra))
      else Inr ('', data: '' @ words, '', data: '' @ words))"

definition showlog_payload :: "regmap \<Rightarrow> string option \<Rightarrow> nat \<Rightarrow> nat list
    \<Rightarrow> exn + string \<times> string" where
  "showlog_payload regs code bytes ret =
     (if code = Some ''J1939_STATUS'' then showlog_j1939_status ret
      else if code = Some ''Controller 1st PGN'' then showlog_controller1 ret
      else if code = Some ''Controller 2nd PGN'' then showlog_controller2 ret
      else if code = Some ''Controller 3rd PGN'' then showlog_controller3 ret
      else if code = Some ''Modbus Registers'' then showlog_modbus regs ret
      else if code = Some ''AdvDCS Response'' then showlog_advdcs ret
      else showlog_data bytes ret)"

definition pair_app :: "string \<times> string \<Rightarrow> string \<times> string \<Rightarrow> string \<times> string" where
  "pair_app a b = (fst a @ fst b, snd a @ snd b)"

definition showlog_decode :: "regmap \<Rightarrow> string \<times> string \<Rightarrow> nat list \<Rightarrow> bool
    \<Rightarrow> exn + string \<times> string" where
  \<comment> \<open>\<open>now\<close> is the pair (\<^verbatim>\<open>datetime.datetime.now().isoformat()\<close>, \<^verbatim>\<open>time.asctime()\<close>).
      The result is (\<open>line\<close>, \<open>cline\<close>) as they stand when the window is printed to.\<close>
  "showlog_decode regs now ret show_time =
     (let stamp = (if show_time then (fst now @ '', '', snd now @ '' '') else ('''', '''')) in
      exn_bind (idx ret 0) (\<lambda>r0.
      exn_bind (idx ret 1) (\<lambda>r1.
      exn_bind (idx ret 2) (\<lambda>r2.
      exn_bind (idx ret 3) (\<lambda>r3.
        let (btxt, bytes) = showlog_bytes r3;
            head = pair_app (pair_app (pair_app (pair_app stamp (showlog_level r0))
                     (showlog_code r1)) (showlog_device r2)) btxt
        in exn_bind (showlog_payload regs (pgn_names r1) bytes ret) (\<lambda>more.
             Inr (pair_app (pair_app head more) (nl, '''')))))))) "

text \<open>The sinks of \<^verbatim>\<open>showlog\<close>: the \<^verbatim>\<open>-LOG-\<close> window, and the log file with its flush
  every 100 writes.\<close>

record log_sink =
  log_window :: "string list"
  log_file :: "string list option"
  write_count :: nat
  flushes :: nat

definition showlog :: "regmap \<Rightarrow> string \<times> string \<Rightarrow> nat list \<Rightarrow> bool \<Rightarrow> log_sink
    \<Rightarrow> exn + log_sink" where
  "showlog regs now ret show_time s =
     exn_bind (showlog_decode regs now ret show_time) (\<lambda>(line, cline).
       let s1 = s\<lparr>log_window := log_window s @ [cline]\<rparr> in
       case log_file s1 of
         None \<Rightarrow> Inr s1
       | Some written \<Rightarrow>
           (let s2 = s1\<lparr>log_file := Some (written @ [line]), write_count := write_count s1 + 1\<rparr>
            in if write_count s2 \<ge> 100
               then Inr (s2\<lparr>flushes := flushes s2 + 1, write_count := 0\<rparr>)
               else Inr s2))"

section \<open>Script interpreter\<close>

subsection \<open>Values of script cells and results\<close>

text \<open>
  A floating-point value is carried as the text it was parsed from (\<open>PFloat a\<close> stands for
  \<^verbatim>\<open>float(a)\<close>); what Python computes on the value itself is supplied by the environment
  below. \<open>PList\<close> is a list of register words, \<open>PNone\<close> is \<^verbatim>\<open>None\<close>.
\<close>

datatype pyval = PInt int | PFloat string | PBool bool | PStr string | PNone | PList "nat list"

definition py_isspace :: "char \<Rightarrow> bool" where
  "py_isspace c = (of_char c \<in> {9, 10, 11, 12, 13, 28, 29, 30, 31, 32, 133, 160 :: nat})"

definition py_strip :: "string \<Rightarrow> string" where
  \<comment> \<open>\<^verbatim>\<open>s.strip()\<close>\<close>
  "py_strip s = rev (dropWhile py_isspace (rev (dropWhile py_isspace s)))"

definition lower_char :: "char \<Rightarrow> char" where
  "lower_char c =
     (case map_of (zip ''ABCDEFGHIJKLMNOPQRSTUVWXYZ'' ''abcdefghijklmnopqrstuvwxyz'') c of
        Some l \<Rightarrow> l
      | None \<Rightarrow> c)"

definition py_lower :: "string \<Rightarrow> string" where
  \<comment> \<open>\<^verbatim>\<open>s.lower()\<close>, exact where the result is compared with an ASCII word\<close>
  "py_lower s = map lower_char s"

definition is_digit :: "char \<Rightarrow> bool" where
  "is_digit c = (let n = of_char c :: nat in 48 \<le> n \<and> n \<le> 57)"

definition digit_val :: "char \<Rightarrow> int" where
  "digit_val c = int (of_char c) - 48"

fun underscores_ok :: "char \<Rightarrow> string \<Rightarrow> bool" where
  \<comment> \<open>an underscore only between two digits; the first argument is the previous character\<close>
  "underscores_ok prev [] = (prev \<noteq> CHR ''_'')"
| "underscores_ok prev (c # cs) =
     ((if c = CHR ''_'' then is_digit prev
       else if prev = CHR ''_'' then is_digit c else True)
      \<and> underscores_ok c cs)"

definition drop_sign :: "string \<Rightarrow> string" where
  "drop_sign s = (case s of [] \<Rightarrow> [] | c # cs \<Rightarrow> if c = CHR ''+'' \<or> c = CHR ''-'' then cs else s)"

definition parse_int :: "string \<Rightarrow> int option" where
  \<comment> \<open>\<^verbatim>\<open>int(a)\<close> on text: \<open>None\<close> is the \<^verbatim>\<open>ValueError\<close>\<close>
  "parse_int a =
     (let s = py_strip a;
          body = drop_sign s;
          ds = filter (\<lambda>c. c \<noteq> CHR ''_'') body
      in if ds \<noteq> [] \<and> list_all is_digit ds \<and> underscores_ok (CHR 0x00) body
         then (let n = foldl (\<lambda>acc c. 10 * acc + digit_val c) 0 ds
               in Some (if take 1 s = ''-'' then - n else n))
         else None)"

definition exponent_ok :: "string \<Rightarrow> bool" where
  "exponent_ok r =
     (case r of [] \<Rightarrow> True
      | c # cs \<Rightarrow> (c = CHR ''e'' \<or> c = CHR ''E'')
                  \<and> (let d = drop_sign cs in d \<noteq> [] \<and> list_all is_digit d))"

definition decimal_ok :: "string \<Rightarrow> bool" where
  "decimal_ok r =
     (let ip = takeWhile is_digit r; r1 = dropWhile is_digit r in
      case r1 of
        [] \<Rightarrow> ip \<noteq> []
      | c # cs \<Rightarrow>
          if c = CHR ''.''
          then (let fp = takeWhile is_digit cs; r2 = dropWhile is_digit cs
                in (ip \<noteq> [] \<or> fp \<noteq> []) \<and> exponent_ok r2)
          else ip \<noteq> [] \<and> exponent_ok r1)"

definition is_float_literal :: "string \<Rightarrow> bool" where
  \<comment> \<open>\<^verbatim>\<open>float(a)\<close> on text returns (no \<^verbatim>\<open>ValueError\<close>)\<close>
  "is_float_literal a =
     (let s = py_strip a;
          t = filter (\<lambda>c. c \<noteq> CHR ''_'') s;
          body = drop_sign t
      in underscores_ok (CHR 0x00) s
         \<and> (py_lower body \<in> {''inf'', ''infinity'', ''nan''} \<or> decimal_ok body))"

subsection \<open>Formatting\<close>

definition py_printable :: "char \<Rightarrow> bool" where
  "py_printable c = (let n = of_char c :: nat in (32 \<le> n \<and> n < 127) \<or> (161 \<le> n \<and> n \<noteq> 173))"

definition repr_char :: "char \<Rightarrow> char \<Rightarrow> string" where
  "repr_char quote c =
     (if c = quote \<or> c = CHR 0x5C then [CHR 0x5C, c]
      else if c = CHR 0x09 then [CHR 0x5C, CHR ''t'']
      else if c = CHR 0x0A then [CHR 0x5C, CHR ''n'']
      else if c = CHR 0x0D then [CHR 0x5C, CHR ''r'']
      else if \<not> py_printable c then [CHR 0x5C, CHR ''x''] @ fmt_02x (of_char c)
      else [c])"

definition repr_str :: "string \<Rightarrow> string" where
  \<comment> \<open>\<^verbatim>\<open>repr(s)\<close> of a \<^verbatim>\<open>str\<close>\<close>
  "repr_str s =
     (let quote = (if CHR 0x27 \<in> set s \<and> CHR 0x22 \<notin> set s then CHR 0x22 else CHR 0x27)
      in quote # concat (map (repr_char quote) s) @ [quote])"

definition str_bool :: "bool \<Rightarrow> string" where
  "str_bool b = (if b then ''True'' else ''False'')"

fun py_str :: "(string \<Rightarrow> string) \<Rightarrow> pyval \<Rightarrow> string" where
  \<comment> \<open>\<^verbatim>\<open>str(v)\<close>; the first argument formats a float\<close>
  "py_str fr (PInt n) = str_int n"
| "py_str fr (PFloat a) = fr a"
| "py_str fr (PBool b) = str_bool b"
| "py_str fr (PStr s) = s"
| "py_str fr PNone = ''None''"
| "py_str fr (PList ws) = ''['' @ py_join '', '' (map str_nat ws) @ '']''"

fun py_repr :: "(string \<Rightarrow> string) \<Rightarrow> pyval \<Rightarrow> string" where
  "py_repr fr (PStr s) = repr_str s"
| "py_repr fr v = py_str fr v"

definition str_row :: "string list \<Rightarrow> string" where
  \<comment> \<open>\<^verbatim>\<open>str(row)\<close> of a list of \<^verbatim>\<open>str\<close>\<close>
  "str_row row = ''['' @ py_join '', '' (map repr_str row) @ '']''"

fun type_name :: "pyval \<Rightarrow> string" where
  "type_name (PInt n) = ''int''"
| "type_name (PFloat a) = ''float''"
| "type_name (PBool b) = ''bool''"
| "type_name (PStr s) = ''str''"
| "type_name PNone = ''NoneType''"
| "type_name (PList ws) = ''list''"

fun contains :: "'a list \<Rightarrow> 'a list \<Rightarrow> bool" where
  \<comment> \<open>\<^verbatim>\<open>xs in ys\<close> on text\<close>
  "contains xs [] = (xs = [])"
| "contains xs (y # ys) = (prefix xs (y # ys) \<or> contains xs ys)"

subsection \<open>Value coercion\<close>

definition py_int :: "string \<Rightarrow> exn + int" where
  \<comment> \<open>\<^verbatim>\<open>int(a)\<close> on text\<close>
  "py_int a =
     (case parse_int a of
        Some n \<Rightarrow> Inr n
      | None \<Rightarrow> Inl (Exn ValueError (''invalid literal for int() with base 10: '' @ repr_str a)))"

definition py_float :: "string \<Rightarrow> exn + string" where
  \<comment> \<open>\<^verbatim>\<open>float(a)\<close> on text; the value is carried as its literal\<close>
  "py_float a =
     (if is_float_literal a then Inr a
      else Inl (Exn ValueError (''could not convert string to float: '' @ repr_str a)))"

definition coerce :: "string \<Rightarrow> exn + pyval" where
  \<comment> \<open>the body of \<^verbatim>\<open>for a in row\<close> in \<^verbatim>\<open>run_script\<close>: the value appended to \<^verbatim>\<open>b\<close>\<close>
  "coerce a =
     (case py_int a of
        Inr n \<Rightarrow> Inr (PInt n)
      | Inl e \<Rightarrow>
          if kind_of e = ValueError
          then (case py_float a of
                  Inr f \<Rightarrow> Inr (PFloat f)
                | Inl e' \<Rightarrow>
                    if kind_of e' = ValueError
                    then (if py_lower a = ''false'' then Inr (PBool False)
                          else if py_lower a = ''true'' then Inr (PBool True)
                          else Inr (PStr a))
                    else Inl e')
          else Inl e)"

fun coerce_row :: "string list \<Rightarrow> exn + pyval list" where
  "coerce_row [] = Inr []"
| "coerce_row (a # row) =
     exn_bind (coerce a) (\<lambda>v. exn_bind (coerce_row row) (\<lambda>b. Inr (v # b)))"


subsection \<open>Environment and state\<close>

text \<open>
  What the interpreter calls but does not define is a field of the environment: the
  active product's register dictionary and write function code, the \<^verbatim>\<open>minimalmodbus\<close>
  instrument (three calls on a device state \<open>'d\<close>), \<^verbatim>\<open>csv.reader\<close>, \<^verbatim>\<open>time.sleep\<close>,
  \<^verbatim>\<open>eval\<close> together with the truth test of its result, and the arithmetic on
  floating-point cells. The state holds the device, the trace of instrument calls, the
  global \<^verbatim>\<open>comm_status\<close>, the two window elements, the popups, the printed lines and the
  sleeps.
\<close>

datatype call = ReadRegister nat | ReadRegisters nat pyval | WriteRegister nat pyval nat

record 'd env =
  product_regs :: regmap
  product_fc :: nat
  instr_read_register :: "nat \<Rightarrow> 'd \<Rightarrow> (exn + nat) \<times> 'd"
  instr_read_registers :: "nat \<Rightarrow> pyval \<Rightarrow> 'd \<Rightarrow> (exn + nat list) \<times> 'd"
  instr_write_register :: "nat \<Rightarrow> pyval \<Rightarrow> nat \<Rightarrow> 'd \<Rightarrow> exn option \<times> 'd"
  csv_reader :: "string list \<Rightarrow> string list list"
  py_sleep :: "pyval \<Rightarrow> exn option"
  py_eval :: "string \<Rightarrow> pyval \<Rightarrow> exn + bool"
  float_repr :: "string \<Rightarrow> string"
  float_gt1 :: "string \<Rightarrow> bool"
  float_nonzero :: "string \<Rightarrow> bool"

record 'd world =
  dev :: 'd
  calls :: "call list"
  comm_status :: string
  output_box :: string
  comms_box :: string
  popups :: "string list"
  printed :: "string list"
  slept :: "pyval list"

definition refresh :: "string \<Rightarrow> 'd world \<Rightarrow> 'd world" where
  \<comment> \<open>\<^verbatim>\<open>window['-OUTPUT-'].update(ret); window['-COMMS-'].update(comm_status)\<close>\<close>
  "refresh ret w = w\<lparr>output_box := ret, comms_box := comm_status w\<rparr>"

subsection \<open>Transport wrappers\<close>

definition read_register :: "'d env \<Rightarrow> nat \<Rightarrow> 'd world \<Rightarrow> (exn + pyval) \<times> 'd world" where
  "read_register E registeraddress w =
     (let (r, d) = instr_read_register E registeraddress (dev w);
          w1 = w\<lparr>dev := d, calls := calls w @ [ReadRegister registeraddress]\<rparr>
      in case r of
           Inr v \<Rightarrow> (Inr (PInt (int v)), w1)
         | Inl e \<Rightarrow>
             if kind_of e = IllegalRequestError
             then (Inl e, w1\<lparr>comm_status := exn_msg e\<rparr>)
             else if kind_of e = InvalidResponseError
             then (Inr PNone,
                   w1\<lparr>comm_status := exn_msg e,
                      printed := printed w1
                        @ [''Invalid Response error '' @ exn_msg e @ ''. Continuing...'']\<rparr>)
             else if kind_of e = NoResponseError
             then (Inr PNone,
                   w1\<lparr>comm_status := exn_msg e,
                      printed := printed w1 @ [exn_msg e, ''[ignoring error]'']\<rparr>)
             else (Inl e, w1))"

definition read_registers :: "'d env \<Rightarrow> nat \<Rightarrow> pyval \<Rightarrow> 'd world \<Rightarrow> (exn + pyval) \<times> 'd world" where
  "read_registers E addr val w =
     (let (r, d) = instr_read_registers E addr val (dev w);
          w1 = w\<lparr>dev := d, calls := calls w @ [ReadRegisters addr val]\<rparr>
      in case r of
           Inr vs \<Rightarrow> (Inr (PList vs), w1)
         | Inl e \<Rightarrow>
             if kind_of e = IllegalRequestError \<or> kind_of e = InvalidResponseError
             then (Inr PNone, w1\<lparr>comm_status := exn_msg e, printed := printed w1 @ [exn_msg e]\<rparr>)
             else if kind_of e = NoResponseError
             then (Inr PNone,
                   w1\<lparr>comm_status := exn_msg e,
                      printed := printed w1 @ [exn_msg e, ''[Ignoring error]'']\<rparr>)
             else (Inl e, w1))"

definition write_register :: "'d env \<Rightarrow> nat \<Rightarrow> pyval \<Rightarrow> 'd world \<Rightarrow> (exn + string) \<times> 'd world" where
  "write_register E addr val w =
     (let (r, d) = instr_write_register E addr val (product_fc E) (dev w);
          w1 = w\<lparr>dev := d, calls := calls w @ [WriteRegister addr val (product_fc E)]\<rparr>
      in case r of
           None \<Rightarrow> (Inr ''OK'', w1\<lparr>comm_status := ''''\<rparr>)
         | Some e \<Rightarrow>
             if kind_of e = IllegalRequestError
             then (Inr ''Illegal request error'', w1\<lparr>comm_status := ''Illegal request error''\<rparr>)
             else if kind_of e = InvalidResponseError
             then (Inr ''Invalid response error'', w1\<lparr>comm_status := ''Invalid response error''\<rparr>)
             else if kind_of e = NoResponseError
             then (Inr ''No communication with the instrument (null answer)'',
                   w1\<lparr>comm_status := ''No communication with the instrument (null answer)''\<rparr>)
             else (Inl e, w1))"




subsection \<open>\<^verbatim>\<open>do_script_line\<close>\<close>

fun py_truthy :: "(string \<Rightarrow> bool) \<Rightarrow> pyval \<Rightarrow> bool" where
  \<comment> \<open>\<^verbatim>\<open>if v:\<close>; the first argument tells whether a float is non-zero\<close>
  "py_truthy nz (PInt n) = (n \<noteq> 0)"
| "py_truthy nz (PFloat a) = nz a"
| "py_truthy nz (PBool b) = b"
| "py_truthy nz (PStr s) = (s \<noteq> [])"
| "py_truthy nz PNone = False"
| "py_truthy nz (PList ws) = (ws \<noteq> [])"

definition not_supported :: "string \<Rightarrow> pyval \<Rightarrow> exn" where
  "not_supported opr v = Exn TypeError (sq @ opr @ sq @ '' not supported between instances of ''
     @ sq @ type_name v @ sq @ '' and '' @ sq @ ''int'' @ sq)"

fun py_gt_int :: "(string \<Rightarrow> bool) \<Rightarrow> pyval \<Rightarrow> int \<Rightarrow> exn + bool" where
  \<comment> \<open>\<^verbatim>\<open>v > k\<close> for an integer literal \<open>k\<close>; the first argument decides it for a float\<close>
  "py_gt_int fg (PInt n) k = Inr (n > k)"
| "py_gt_int fg (PBool b) k = Inr ((if b then 1 else 0) > k)"
| "py_gt_int fg (PFloat a) k = Inr (fg a)"
| "py_gt_int fg v k = Inl (not_supported ''>'' v)"

fun py_range :: "pyval \<Rightarrow> exn + int" where
  \<comment> \<open>the bound of \<^verbatim>\<open>range(v)\<close>\<close>
  "py_range (PInt n) = Inr n"
| "py_range (PBool b) = Inr (if b then 1 else 0)"
| "py_range v = Inl (Exn TypeError
     (sq @ type_name v @ sq @ '' object cannot be interpreted as an integer''))"

definition line_desc :: "pyval list \<Rightarrow> exn + string" where
  \<comment> \<open>\<^verbatim>\<open>'' if len(line) < 6 or len(line[5].strip()) == 0 else line[5].strip()\<close>\<close>
  "line_desc line =
     (if length line < 6 then Inr ''''
      else (case line ! 5 of
              PStr s \<Rightarrow> Inr (py_strip s)
            | v \<Rightarrow> Inl (Exn AttributeError
                (sq @ type_name v @ sq @ '' object has no attribute '' @ sq @ ''strip'' @ sq))))"

definition lookup_reg :: "(string \<Rightarrow> string) \<Rightarrow> regmap \<Rightarrow> pyval list \<Rightarrow> exn + nat" where
  \<comment> \<open>\<^verbatim>\<open>products[product][3][line[0]]\<close>: only a \<^verbatim>\<open>str\<close> equals a key of the dictionary;
      the message of a \<^verbatim>\<open>KeyError\<close> is the \<^verbatim>\<open>repr\<close> of the key\<close>
  "lookup_reg fr regs line =
     (case line of
        [] \<Rightarrow> Inl (Exn IndexError ''list index out of range'')
      | PStr s # _ \<Rightarrow> (case resolve regs s of
                         Some a \<Rightarrow> Inr a
                       | None \<Rightarrow> Inl (Exn KeyError (repr_str s)))
      | v # _ \<Rightarrow> Inl (Exn KeyError (py_repr fr v)))"

record loop_ctx =
  lc_addr :: nat
  lc_val :: pyval
  lc_write :: bool
  lc_multi :: bool
  lc_delay :: pyval
  lc_iterations :: int
  lc_assertion :: string

definition transfer :: "'d env \<Rightarrow> loop_ctx \<Rightarrow> 'd world \<Rightarrow> (exn + pyval) \<times> 'd world" where
  \<comment> \<open>the transport step of one iteration: \<open>result\<close>\<close>
  "transfer E C w =
     (if lc_write C
      then (case write_register E (lc_addr C) (lc_val C) w of
              (Inl e, w1) \<Rightarrow> (Inl e, w1)
            | (Inr s, w1) \<Rightarrow> (Inr (PStr s), w1))
      else if lc_multi C
      then (case read_registers E (lc_addr C) (lc_val C) w of
              (Inl e, w1) \<Rightarrow>
                if kind_of e = ValueError
                then (Inr (PStr ''(null)''),
                      w1\<lparr>popups := popups w1
                           @ [''ValueError. Maybe you asked for too many registers?'']\<rparr>)
                else (Inl e, w1)
            | (Inr v, w1) \<Rightarrow> (Inr v, w1))
      else (case read_register E (lc_addr C) w of
              (Inl e, w1) \<Rightarrow>
                if kind_of e = IllegalRequestError
                then (Inr (PStr ''(Null)''),
                      w1\<lparr>popups := popups w1
                           @ [''IllegalRequestError. Probably the register does not exist on the host.'']\<rparr>)
                else (Inl e, w1)
            | (Inr v, w1) \<Rightarrow> (Inr v, w1)))"

definition check_assertion :: "'d env \<Rightarrow> string \<Rightarrow> pyval \<Rightarrow> string \<Rightarrow> exn + string" where
  \<comment> \<open>the \<^verbatim>\<open>if len(assertion) > 0\<close> block: the report after it\<close>
  "check_assertion E assertion result ret =
     (if length assertion > 0
      then (case py_eval E assertion result of
              Inl e \<Rightarrow>
                if kind_of e = NameError \<or> kind_of e = TypeError \<or> kind_of e = SyntaxError
                then Inr (ret @ '': *** ERROR *** '' @ exn_msg e)
                else Inl e
            | Inr asserted \<Rightarrow>
                if asserted then Inr (ret @ '': PASS'') else Inr (ret @ '': *** FAIL ***''))
      else Inr ret)"

definition iteration :: "'d env \<Rightarrow> loop_ctx \<Rightarrow> nat \<Rightarrow> string \<Rightarrow> 'd world
    \<Rightarrow> (exn + string) \<times> 'd world" where
  \<comment> \<open>the body of \<^verbatim>\<open>for i in range(iterations)\<close>\<close>
  "iteration E C i ret w =
     (let ret1 = (if lc_iterations C > 1 then ret @ str_int (int i + 1) @ '':'' else ret) in
      case transfer E C w of
        (Inl e, w1) \<Rightarrow> (Inl e, w1)
      | (Inr result, w1) \<Rightarrow>
          (let ret2 = ret1 @ py_str (float_repr E) result in
           case check_assertion E (lc_assertion C) result ret2 of
             Inl e \<Rightarrow> (Inl e, w1)
           | Inr ret3 \<Rightarrow>
               (let ret4 = (if int i + 1 < lc_iterations C then ret3 @ ''; '' else ret3);
                    w2 = refresh ret4 w1
                in case py_sleep E (lc_delay C) of
                     Some e \<Rightarrow> (Inl e, w2)
                   | None \<Rightarrow> (Inr (ret4 @ nl), w2\<lparr>slept := slept w2 @ [lc_delay C]\<rparr>))))"

fun iterate :: "'d env \<Rightarrow> loop_ctx \<Rightarrow> nat \<Rightarrow> nat \<Rightarrow> string \<Rightarrow> 'd world
    \<Rightarrow> (exn + string) \<times> 'd world" where
  \<comment> \<open>the loop from index \<open>i\<close> with \<open>k\<close> iterations left\<close>
  "iterate E C i 0 ret w = (Inr ret, w)"
| "iterate E C i (Suc k) ret w =
     (case iteration E C i ret w of
        (Inl e, w1) \<Rightarrow> (Inl e, w1)
      | (Inr ret1, w1) \<Rightarrow> iterate E C (Suc i) k ret1 w1)"

definition try_pure :: "exn + 'a \<Rightarrow> 'w \<Rightarrow> ('a \<Rightarrow> (exn + 'b) \<times> 'w) \<Rightarrow> (exn + 'b) \<times> 'w" where
  \<comment> \<open>a step that may raise without touching the state \<open>w\<close>\<close>
  "try_pure m w f = (case m of Inl e \<Rightarrow> (Inl e, w) | Inr x \<Rightarrow> f x)"

definition headline :: "'d env \<Rightarrow> bool \<Rightarrow> bool \<Rightarrow> pyval \<Rightarrow> string \<Rightarrow> string" where
  \<comment> \<open>the text added before the description\<close>
  "headline E wr multi val name =
     (if wr then ''Write '' @ py_str (float_repr E) val @ '' to '' @ name
      else if multi then ''Read '' @ py_str (float_repr E) val @ '' registers starting at '' @ name
      else ''Read from '' @ name)"

definition do_script_line :: "'d env \<Rightarrow> pyval list \<Rightarrow> string \<Rightarrow> 'd world
    \<Rightarrow> (exn + string) \<times> 'd world" where
  "do_script_line E line preserve w =
     (case lookup_reg (float_repr E) (product_regs E) line of
        Inl e \<Rightarrow>
          (let w1 = w\<lparr>comm_status := ''Unexpected register name: '' @ exn_msg e @ ''. *** FAIL ***''\<rparr>;
               ret = preserve @ comm_status w1
           in (Inr ret, refresh ret w1))
      | Inr addr \<Rightarrow>
          (let w1 = w\<lparr>comm_status := []\<rparr> in
           try_pure (idx line 1) w1 (\<lambda>val.
           let write = (if length line < 3 then PBool False else line ! 2);
               delay = (if length line < 4 then PInt 0 else line ! 3);
               iterations = (if length line < 5 then PInt 1 else line ! 4)
           in
           try_pure (line_desc line) w1 (\<lambda>desc0.
           let assertion = (if length desc0 \<ge> 7 \<and> py_lower (take 7 desc0) = ''assert:''
                            then py_strip (drop 7 desc0) else []);
               desc = (if length desc0 = 0 then '': '' else '' ['' @ desc0 @ '']: '');
               wr = py_truthy (float_nonzero E) write
           in
           try_pure (if wr then Inr False else py_gt_int (float_gt1 E) val 1) w1 (\<lambda>multi.
           let ret = preserve @ headline E wr multi val (py_str (float_repr E) (line ! 0)) @ desc
           in
           try_pure (py_range iterations) w1 (\<lambda>n.
             case iterate E
                    \<lparr>lc_addr = addr, lc_val = val, lc_write = wr, lc_multi = multi,
                     lc_delay = delay, lc_iterations = n, lc_assertion = assertion\<rparr>
                    0 (nat n) ret w1 of
               (Inl e, w2) \<Rightarrow> (Inl e, w2)
             | (Inr ret1, w2) \<Rightarrow> (Inr ret1, refresh ret1 w2)))))))"

subsection \<open>\<^verbatim>\<open>run_script\<close>\<close>

fun readlines_from :: "string \<Rightarrow> string \<Rightarrow> string list" where
  \<comment> \<open>\<^verbatim>\<open>readlines()\<close>: the first argument is the line read so far\<close>
  "readlines_from cur [] = (if cur = [] then [] else [cur])"
| "readlines_from cur (c # cs) =
     (if c = CHR 0x0A then (cur @ [c]) # readlines_from [] cs else readlines_from (cur @ [c]) cs)"

definition readlines :: "string \<Rightarrow> string list" where
  "readlines text = readlines_from [] text"

definition executable :: "string \<Rightarrow> bool" where
  \<comment> \<open>\<^verbatim>\<open>len(line.strip()) > 0 and line[0] != '#'\<close>\<close>
  "executable line =
     (length (py_strip line) > 0 \<and> (case line of [] \<Rightarrow> False | c # _ \<Rightarrow> c \<noteq> CHR ''#''))"

fun run_rows :: "'d env \<Rightarrow> string list list \<Rightarrow> string \<Rightarrow> 'd world
    \<Rightarrow> (exn + string) \<times> 'd world" where
  \<comment> \<open>the loop \<^verbatim>\<open>for row in rdr\<close>\<close>
  "run_rows E [] ret w = (Inr ret, w)"
| "run_rows E (row # rows) ret w =
     (let w1 = refresh ret w in
      if length row < 5
      then run_rows E rows (ret @ ''not enough columns in '' @ dq @ str_row row @ dq @ nl) w1
      else (case coerce_row row of
              Inl e \<Rightarrow> (Inl e, w1)
            | Inr b \<Rightarrow>
                (case do_script_line E b ret w1 of
                   (Inl e, w2) \<Rightarrow> (Inl e, w2)
                 | (Inr ret1, w2) \<Rightarrow>
                     run_rows E rows
                       (if length ret1 = 0 \<or> last ret1 \<noteq> CHR 0x0A then ret1 @ nl else ret1)
                       w2)))"

definition trailer :: "nat \<Rightarrow> string \<Rightarrow> string" where
  \<comment> \<open>the report after the last three statements that build it\<close>
  "trailer n ret =
     (let ret1 = ret @ str_nat n @ '' commands processed.'' @ nl in
      if contains ''*** FAIL ***'' ret1 \<or> contains ''*** ERROR ***'' ret1
      then ret1 @ ''*** AT LEAST ONE COMMAND FAILED ***''
      else ret1 @ ''No errors detected'')"

definition run_script :: "'d env \<Rightarrow> string \<Rightarrow> 'd world \<Rightarrow> exn option \<times> 'd world" where
  \<comment> \<open>\<open>text\<close> is the content of the script file; the report ends in \<^verbatim>\<open>-OUTPUT-\<close>\<close>
  "run_script E text w =
     (let lines = filter executable (readlines text);
          rdr = csv_reader E lines
      in case run_rows E rdr '''' w of
           (Inl e, w1) \<Rightarrow> (Some e, w1)
         | (Inr ret, w1) \<Rightarrow> (None, refresh (trailer (length lines) ret) w1))"

section \<open>The archived V1.01 build of \<^verbatim>\<open>do_script_line\<close>\<close>

text \<open>
  The repository keeps the V1.01 build beside V1.4.0. Its \<^verbatim>\<open>do_script_line\<close> differs: only
  \<^verbatim>\<open>KeyError\<close> is caught at the lookup and the message is assigned to the report, not
  appended; the headline shows the name found at position \<open>addr\<close> of the dictionary and
  the address; the reads are not guarded; the newline is added once, after the loop.
  Its \<^verbatim>\<open>read_register\<close> leaves the program (\<^verbatim>\<open>sys.exit(74)\<close>) on a malformed response.
  There is no \<^verbatim>\<open>comm_status\<close>.
\<close>

definition read_register_v101 :: "'d env \<Rightarrow> nat \<Rightarrow> 'd world \<Rightarrow> (exn + pyval) \<times> 'd world" where
  "read_register_v101 E registeraddress w =
     (let (r, d) = instr_read_register E registeraddress (dev w);
          w1 = w\<lparr>dev := d, calls := calls w @ [ReadRegister registeraddress]\<rparr>
      in case r of
           Inr v \<Rightarrow> (Inr (PInt (int v)), w1)
         | Inl e \<Rightarrow>
             if kind_of e = IllegalRequestError then (Inl e, w1)
             else if kind_of e = InvalidResponseError
             then (Inl (Exn SystemExit ''74''), w1\<lparr>printed := printed w1 @ [exn_msg e]\<rparr>)
             else if kind_of e = NoResponseError
             then (Inr PNone, w1\<lparr>printed := printed w1 @ [exn_msg e, ''[ignoring error]'']\<rparr>)
             else (Inl e, w1))"

definition read_registers_v101 :: "'d env \<Rightarrow> nat \<Rightarrow> pyval \<Rightarrow> 'd world
    \<Rightarrow> (exn + pyval) \<times> 'd world" where
  "read_registers_v101 E addr val w =
     (let (r, d) = instr_read_registers E addr val (dev w);
          w1 = w\<lparr>dev := d, calls := calls w @ [ReadRegisters addr val]\<rparr>
      in case r of
           Inr vs \<Rightarrow> (Inr (PList vs), w1)
         | Inl e \<Rightarrow>
             if kind_of e = IllegalRequestError \<or> kind_of e = InvalidResponseError
             then (Inr PNone, w1\<lparr>printed := printed w1 @ [exn_msg e]\<rparr>)
             else if kind_of e = NoResponseError
             then (Inr PNone, w1\<lparr>printed := printed w1 @ [exn_msg e, ''[Ignoring error]'']\<rparr>)
             else if kind_of e = NameError
             then (Inl (Exn SystemExit ''-1''),
                   w1\<lparr>printed := printed w1 @ [exn_msg e],
                      popups := popups w1 @ [''Please connect the corect cable'']\<rparr>)
             else (Inl e, w1))"

definition write_register_v101 :: "'d env \<Rightarrow> nat \<Rightarrow> pyval \<Rightarrow> 'd world
    \<Rightarrow> (exn + string) \<times> 'd world" where
  \<comment> \<open>\<^verbatim>\<open>instrument.write_register(addr, val, 0)\<close>: the library's default function code 16\<close>
  "write_register_v101 E addr val w =
     (let (r, d) = instr_write_register E addr val 16 (dev w);
          w1 = w\<lparr>dev := d, calls := calls w @ [WriteRegister addr val 16]\<rparr>
      in case r of
           None \<Rightarrow> (Inr ''OK'', w1)
         | Some e \<Rightarrow>
             if kind_of e = IllegalRequestError then (Inr ''Illegal request error'', w1)
             else if kind_of e = InvalidResponseError then (Inr ''Invalid response error'', w1)
             else (Inl e, w1))"

definition transfer_v101 :: "'d env \<Rightarrow> loop_ctx \<Rightarrow> 'd world \<Rightarrow> (exn + pyval) \<times> 'd world" where
  "transfer_v101 E C w =
     (if lc_write C
      then (case write_register_v101 E (lc_addr C) (lc_val C) w of
              (Inl e, w1) \<Rightarrow> (Inl e, w1)
            | (Inr s, w1) \<Rightarrow> (Inr (PStr s), w1))
      else if lc_multi C then read_registers_v101 E (lc_addr C) (lc_val C) w
      else read_register_v101 E (lc_addr C) w)"

definition iteration_v101 :: "'d env \<Rightarrow> loop_ctx \<Rightarrow> nat \<Rightarrow> string \<Rightarrow> 'd world
    \<Rightarrow> (exn + string) \<times> 'd world" where
  "iteration_v101 E C i ret w =
     (let ret1 = (if lc_iterations C > 1 then ret @ str_int (int i + 1) @ '':'' else ret) in
      case transfer_v101 E C w of
        (Inl e, w1) \<Rightarrow> (Inl e, w1)
      | (Inr result, w1) \<Rightarrow>
          (let ret2 = ret1 @ py_str (float_repr E) result in
           case check_assertion E (lc_assertion C) result ret2 of
             Inl e \<Rightarrow> (Inl e, w1)
           | Inr ret3 \<Rightarrow>
               (let ret4 = (if int i + 1 < lc_iterations C then ret3 @ ''; '' else ret3);
                    w2 = w1\<lparr>output_box := ret4\<rparr>
                in case py_sleep E (lc_delay C) of
                     Some e \<Rightarrow> (Inl e, w2)
                   | None \<Rightarrow> (Inr ret4, w2\<lparr>slept := slept w2 @ [lc_delay C]\<rparr>))))"

fun iterate_v101 :: "'d env \<Rightarrow> loop_ctx \<Rightarrow> nat \<Rightarrow> nat \<Rightarrow> string \<Rightarrow> 'd world
    \<Rightarrow> (exn + string) \<times> 'd world" where
  "iterate_v101 E C i 0 ret w = (Inr ret, w)"
| "iterate_v101 E C i (Suc k) ret w =
     (case iteration_v101 E C i ret w of
        (Inl e, w1) \<Rightarrow> (Inl e, w1)
      | (Inr ret1, w1) \<Rightarrow> iterate_v101 E C (Suc i) k ret1 w1)"

definition headline_v101 :: "'d env \<Rightarrow> bool \<Rightarrow> bool \<Rightarrow> pyval \<Rightarrow> string \<Rightarrow> nat \<Rightarrow> string" where
  "headline_v101 E wr multi val name addr =
     (if wr then ''Write '' @ py_str (float_repr E) val @ '' to '' @ name
                @ ''('' @ str_nat addr @ '')''
      else if multi
      then ''Read '' @ py_str (float_repr E) val @ '' registers starting at '' @ name
           @ ''('' @ str_nat addr @ '')''
      else ''Read from '' @ name @ ''('' @ str_nat addr @ '')'')"

definition do_script_line_v101 :: "'d env \<Rightarrow> pyval list \<Rightarrow> string \<Rightarrow> 'd world
    \<Rightarrow> (exn + string) \<times> 'd world" where
  "do_script_line_v101 E line preserve w =
     (case lookup_reg (float_repr E) (product_regs E) line of
        Inl e \<Rightarrow>
          if kind_of e = KeyError
          then (let ret = ''*** ERROR *** unknown key '' @ py_str (float_repr E) (line ! 0)
                in (Inr ret, w\<lparr>output_box := ret\<rparr>))
          else (Inl e, w)
      | Inr addr \<Rightarrow>
          try_pure (idx line 1) w (\<lambda>val.
          let write = (if length line < 3 then PBool False else line ! 2);
              delay = (if length line < 4 then PInt 0 else line ! 3);
              iterations = (if length line < 5 then PInt 1 else line ! 4)
          in
          try_pure (line_desc line) w (\<lambda>desc0.
          let assertion = (if length desc0 \<ge> 7 \<and> py_lower (take 7 desc0) = ''assert:''
                           then py_strip (drop 7 desc0) else []);
              desc = (if length desc0 = 0 then '': '' else '' ['' @ desc0 @ '']: '');
              wr = py_truthy (float_nonzero E) write
          in
          try_pure (if wr then Inr False else py_gt_int (float_gt1 E) val 1) w (\<lambda>multi.
          try_pure (idx (map fst (product_regs E)) addr) w (\<lambda>name.
          let ret = preserve @ headline_v101 E wr multi val name addr @ desc
          in
          try_pure (py_range iterations) w (\<lambda>n.
            case iterate_v101 E
                   \<lparr>lc_addr = addr, lc_val = val, lc_write = wr, lc_multi = multi,
                    lc_delay = delay, lc_iterations = n, lc_assertion = assertion\<rparr>
                   0 (nat n) ret w of
              (Inl e, w2) \<Rightarrow> (Inl e, w2)
            | (Inr ret1, w2) \<Rightarrow> (Inr (ret1 @ nl), w2\<lparr>output_box := ret1 @ nl\<rparr>)))))))"

section \<open>An example instrument and script reader\<close>

text \<open>
  A concrete environment for the examples: the HyPR 6000 dictionary; a device that
  counts its calls, answers 2400 at address 45, reports an illegal data address at
  address 0 and does not answer elsewhere; \<^verbatim>\<open>csv.reader(skipinitialspace=True)\<close> as it
  behaves on lines without quote characters; a sleep that returns; and \<^verbatim>\<open>eval\<close> that
  knows the one expression \<^verbatim>\<open>x > 0\<close>.
\<close>

fun split_on :: "char \<Rightarrow> string \<Rightarrow> string \<Rightarrow> string list" where
  "split_on c cur [] = [cur]"
| "split_on c cur (x # xs) =
     (if x = c then cur # split_on c [] xs else split_on c (cur @ [x]) xs)"

definition csv_unquoted :: "string list \<Rightarrow> string list list" where
  "csv_unquoted lines =
     map (\<lambda>l. map (dropWhile (\<lambda>c. c = CHR '' ''))
                 (split_on (CHR '','') [] (takeWhile (\<lambda>c. c \<noteq> CHR 0x0A \<and> c \<noteq> CHR 0x0D) l)))
         lines"

definition example_read :: "nat \<Rightarrow> nat \<Rightarrow> (exn + nat) \<times> nat" where
  "example_read a d =
     (if a = 45 then (Inr 2400, Suc d)
      else if a = 0 then (Inl (Exn IllegalRequestError ''Slave reported illegal data address''), Suc d)
      else (Inl (Exn NoResponseError ''No communication with the instrument (no answer)''), Suc d))"

definition example_eval :: "string \<Rightarrow> pyval \<Rightarrow> exn + bool" where
  "example_eval a r =
     (if a = ''x > 0'' then py_gt_int (\<lambda>f. False) r 0
      else Inl (Exn SyntaxError ''invalid syntax (<string>, line 1)''))"

definition example_env :: "nat env" where
  "example_env =
     \<lparr>product_regs = hypr6000_regs, product_fc = 16,
      instr_read_register = example_read,
      instr_read_registers = (\<lambda>a v d. (Inl (Exn InvalidResponseError ''Checksum error in rtu mode''), Suc d)),
      instr_write_register = (\<lambda>a v fc d. (Some (Exn IllegalRequestError ''Slave reported illegal data address''), Suc d)),
      csv_reader = csv_unquoted,
      py_sleep = (\<lambda>v. None),
      py_eval = example_eval,
      float_repr = (\<lambda>a. a), float_gt1 = (\<lambda>a. False), float_nonzero = (\<lambda>a. True)\<rparr>"

definition example_world :: "nat world" where
  "example_world =
     \<lparr>dev = 0, calls = [], comm_status = [], output_box = [], comms_box = [],
      popups = [], printed = [], slept = []\<rparr>"


definition example_script :: string where
  "example_script = ''# HyPR 6000'' @ nl @ ''BUS_VOLTAGE,1,false,0,1,'' @ nl"

definition skipped_script :: string where
  \<comment> \<open>a comment, a row with too few fields, a blank line and a row with an unknown name\<close>
  "skipped_script = ''# nothing runs'' @ nl @ ''FOO,1'' @ nl @ nl @ ''NOPE,1,false,0,1,'' @ nl"

section \<open>Properties of the frame decoder\<close>

lemmas showlog_eval =
  showlog_decode_def showlog_level_def log_levels_def showlog_code_def pgn_names_def
  truthy_opt_def str_opt_def red_def black_def py_hex_def hex_nat.simps hex_digit_def
  str_nat.simps showlog_device_def devices_def fmt_02x_def showlog_bytes_def
  showlog_payload_def showlog_data_def data_word_def exn_bind_def idx_def pair_app_def
  Let_def nl_def sq_def showlog_j1939_status_def j1939_statuses_def
  showlog_controller3_def controller3_bit_def charger_modes_def gen_controls_def
  py_strip_chars_def

text \<open>
  C1 (defect in the code). The claim: for every 8-word frame the decode completes, and a
  lookup that misses (here a \<^verbatim>\<open>J1939_STATUS\<close> value outside the 4-entry table) renders the
  raw value. The code: the miss branch formats \<^verbatim>\<open>hex(j1939_status)\<close>, the \<^verbatim>\<open>None\<close> that the
  lookup returned, instead of \<^verbatim>\<open>hex(ret[4])\<close>, so the decode of the frame
  \<^verbatim>\<open>[2, 2, 1, 4, 7, 0, 0, 0]\<close> raises \<^verbatim>\<open>TypeError\<close> and no line is produced.
\<close>

theorem showlog_j1939_status_miss_raises:
  "showlog_decode hypr6000_regs ('''', '''') [2, 2, 1, 4, 7, 0, 0, 0] False =
     Inl (Exn TypeError
       (sq @ ''NoneType'' @ sq @ '' object cannot be interpreted as an integer''))"
  by (simp add: showlog_eval)

text \<open>
  C2 (defect in the code). The claim: with an odd byte count the raw-data fallback shows
  \<open>byteCount div 2\<close> full words and one more byte, taken from the next value word; for
  \<open>byteCount = 5\<close> that is the third value word. The code indexes the extra byte with
  \<^verbatim>\<open>math.ceil(bytes / 2)\<close>: for 5 it reads \<^verbatim>\<open>ret[7]\<close>, the fourth value word, and the
  third (\<open>0x0506\<close> below) is never shown.
\<close>

theorem showlog_data_odd_bytes_skips_a_word:
  "showlog_decode hypr6000_regs ('''', '''')
     [6, 0x1234, 0, 5, 0x0102, 0x0304, 0x0506, 0x0708] False =
     Inr (''INFO, 0x1234, CAN_A, bytes:5, data: 0x1 0x2 0x3 0x4 0x7 '' @ nl,
          ''INFO, 0x1234, CAN_A, bytes:5, data: 0x1 0x2 0x3 0x4 0x7 '')"
  by (simp add: showlog_eval)

lemma showlog_data_seven_bytes_raises:
  "showlog_data 7 [l, c, d, b, v0, v1, v2, v3] =
     Inl (Exn IndexError ''list index out of range'')"
  by (simp add: showlog_data_def exn_bind_def idx_def)

lemma showlog_bytes_clamps: "snd (showlog_bytes r3) = min r3 8"
  by (simp add: showlog_bytes_def)

text \<open>
  C7 (defect in the code). The claim: in a \<^verbatim>\<open>Controller 3rd PGN\<close> frame the flag \<open>LVCO\<close>
  is shown exactly when bit 1 of \<open>value1\<close> is set. The code tests
  \<^verbatim>\<open>ret[5] & 0x0002 == 1\<close>, which no value satisfies: with \<open>value1 = 0x0102\<close> (bit 1 set)
  the \<open>BIT\<close> field is empty.
\<close>

theorem showlog_controller3_lvco_not_shown:
  "showlog_decode hypr6000_regs ('''', '''') [0, 0xFF22, 0, 8, 2400, 0x0102, 0x0505, 0] False =
     Inr (''EMERG, Controller 3rd PGN, CAN_A, bytes:8, BATTERY_VOLTAGE:2400, CHARGER_MODE:Standby, BIT:, CHARGING_CURRENT:5, GEN_CONTROL:On'' @ nl,
          ''EMERG, Controller 3rd PGN, CAN_A, bytes:8, BATTERY_VOLTAGE:2400, CHARGER_MODE:Standby, BIT:, CHARGING_CURRENT:5, GEN_CONTROL:On'')"
  by (simp add: showlog_eval)

lemma and_two_neq_one: "((n::nat) AND 2 = Suc 0) = False"
proof -
  have "even (n AND 2)" by (simp add: even_and_iff)
  then have "n AND 2 \<noteq> Suc 0" by (metis odd_one One_nat_def)
  then show ?thesis by simp
qed

lemma controller3_bit_low_voltage_only:
  "controller3_bit r5 = (if r5 AND 1 = 1 then ''Low voltage warning'' else [])"
  by (simp add: controller3_bit_def py_strip_chars_def and_two_neq_one)

section \<open>Properties of the register catalog\<close>




section \<open>Properties of the value coercion\<close>

lemma coerce_ladder:
  "coerce a =
     (case parse_int a of
        Some n \<Rightarrow> Inr (PInt n)
      | None \<Rightarrow>
          if is_float_literal a then Inr (PFloat a)
          else if py_lower a = ''false'' then Inr (PBool False)
          else if py_lower a = ''true'' then Inr (PBool True)
          else Inr (PStr a))"
  by (simp add: coerce_def py_int_def py_float_def split: option.splits)

lemma coerce_total: "\<exists>v. coerce a = Inr v"
  by (simp add: coerce_ladder split: option.splits)

lemma coerce_row_total: "\<exists>b. coerce_row row = Inr b \<and> length b = length row"
proof (induction row)
  case Nil
  show ?case by simp
next
  case (Cons a row)
  obtain v where "coerce a = Inr v" using coerce_total by blast
  moreover obtain b where "coerce_row row = Inr b" "length b = length row"
    using Cons.IH by blast
  ultimately show ?case by (simp add: exn_bind_def)
qed

lemmas coerce_eval =
  coerce_ladder parse_int_def is_float_literal_def py_strip_def py_isspace_def drop_sign_def
  is_digit_def digit_val_def decimal_ok_def exponent_ok_def py_lower_def lower_char_def Let_def

text \<open>
  C9. The coercion of a script cell never raises: whatever the text, it returns a value.
  It is a function of the text alone, and it tries the readings in a fixed order:
  an integer if \<^verbatim>\<open>int\<close> accepts the text; otherwise a float if \<^verbatim>\<open>float\<close> accepts it;
  otherwise a boolean if the lower-cased text is \<open>false\<close> or \<open>true\<close>; otherwise the text
  itself. So \<open>5\<close> becomes an integer and \<open>5.0\<close> a float.
\<close>

theorem coerce_total_and_ordered:
  "(\<exists>v. coerce a = Inr v)
   \<and> coerce a =
       (case parse_int a of
          Some n \<Rightarrow> Inr (PInt n)
        | None \<Rightarrow>
            if is_float_literal a then Inr (PFloat a)
            else if py_lower a = ''false'' then Inr (PBool False)
            else if py_lower a = ''true'' then Inr (PBool True)
            else Inr (PStr a))
   \<and> coerce ''5'' = Inr (PInt 5)
   \<and> coerce ''5.0'' = Inr (PFloat ''5.0'')"
proof (intro conjI)
  show "\<exists>v. coerce a = Inr v" by (rule coerce_total)
  show "coerce ''5'' = Inr (PInt 5)" by (simp add: coerce_eval)
  show "coerce ''5.0'' = Inr (PFloat ''5.0'')" by (simp add: coerce_eval)
qed (rule coerce_ladder)

lemma coerce_examples:
  "coerce ''TRUE'' = Inr (PBool True)"
  "coerce ''False'' = Inr (PBool False)"
  "coerce ''BUS_VOLTAGE'' = Inr (PStr ''BUS_VOLTAGE'')"
  "coerce '' -1_000 '' = Inr (PInt (- 1000))"
  "coerce ''1e-3'' = Inr (PFloat ''1e-3'')"
  "coerce [] = Inr (PStr [])"
  by (simp_all add: coerce_eval)

section \<open>Properties of the script interpreter\<close>

subsection \<open>Text search\<close>

lemma contains_iff: "contains xs ys \<longleftrightarrow> (\<exists>p s. ys = p @ xs @ s)"
proof (induction ys)
  case Nil
  show ?case by auto
next
  case (Cons y ys)
  have "(\<exists>p s. y # ys = p @ xs @ s) \<longleftrightarrow> prefix xs (y # ys) \<or> (\<exists>p s. ys = p @ xs @ s)"
  proof
    assume "\<exists>p s. y # ys = p @ xs @ s"
    then obtain p s where eq: "y # ys = p @ xs @ s" by blast
    show "prefix xs (y # ys) \<or> (\<exists>p s. ys = p @ xs @ s)"
    proof (cases p)
      case Nil
      with eq show ?thesis by (auto simp: prefix_def)
    next
      case (Cons a p')
      with eq have "ys = p' @ xs @ s" by simp
      then show ?thesis by blast
    qed
  next
    assume "prefix xs (y # ys) \<or> (\<exists>p s. ys = p @ xs @ s)"
    then show "\<exists>p s. y # ys = p @ xs @ s"
    proof
      assume "prefix xs (y # ys)"
      then obtain s where "y # ys = xs @ s" by (auto simp: prefix_def)
      then have "y # ys = [] @ xs @ s" by simp
      then show ?thesis by blast
    next
      assume "\<exists>p s. ys = p @ xs @ s"
      then obtain p s where "ys = p @ xs @ s" by blast
      then have "y # ys = (y # p) @ xs @ s" by simp
      then show ?thesis by blast
    qed
  qed
  with Cons.IH show ?case by simp
qed

lemma contains_append_left: "contains xs ys \<Longrightarrow> contains xs (ys @ zs)"
proof -
  assume "contains xs ys"
  then obtain p s where "ys = p @ xs @ s" by (auto simp: contains_iff)
  then have "ys @ zs = p @ xs @ (s @ zs)" by simp
  then show ?thesis unfolding contains_iff by blast
qed

lemma contains_append_tail:
  assumes "xs \<noteq> []" and "last xs \<notin> set zs"
  shows "contains xs (ys @ zs) = contains xs ys"
proof
  assume "contains xs (ys @ zs)"
  then obtain p s where "ys @ zs = p @ xs @ s" unfolding contains_iff by blast
  then have eq: "ys @ zs = (p @ xs) @ s" by simp
  have "\<exists>us. ys = (p @ xs) @ us \<and> us @ zs = s \<or> ys @ us = p @ xs \<and> zs = us @ s"
    using eq by (simp only: append_eq_append_conv2 [of ys zs "p @ xs" s])
  then obtain us where
    us: "ys = (p @ xs) @ us \<and> us @ zs = s \<or> ys @ us = p @ xs \<and> zs = us @ s"
    by blast
  show "contains xs ys"
  proof (cases "us = []")
    case True
    with us have "ys = p @ xs @ []" by auto
    then show ?thesis unfolding contains_iff by blast
  next
    case False
    from us show ?thesis
    proof
      assume "ys = (p @ xs) @ us \<and> us @ zs = s"
      then have "ys = p @ xs @ us" by simp
      then show ?thesis unfolding contains_iff by blast
    next
      assume h: "ys @ us = p @ xs \<and> zs = us @ s"
      then have "last (ys @ us) = last (p @ xs)" by simp
      with False assms(1) have "last us = last xs" by simp
      moreover have "last us \<in> set us" using False by simp
      ultimately have "last xs \<in> set zs" using h by simp
      with assms(2) show ?thesis by blast
    qed
  qed
next
  assume "contains xs ys"
  then show "contains xs (ys @ zs)" by (rule contains_append_left)
qed

lemma hex_digit_decimal: "n < 10 \<Longrightarrow> hex_digit n \<in> set ''0123456789''"
proof -
  assume "n < 10"
  then have "n \<in> {0, 1, 2, 3, 4, 5, 6, 7, 8, 9}" by auto
  then show ?thesis by (auto simp: hex_digit_def)
qed

lemma str_nat_digits: "set (str_nat n) \<subseteq> set ''0123456789''"
proof (induction n rule: str_nat.induct)
  case (1 n)
  show ?case
  proof (cases "n < 10")
    case True
    then show ?thesis using hex_digit_decimal [of n] by (subst str_nat.simps) simp
  next
    case False
    have "n mod 10 < 10" by simp
    then have "hex_digit (n mod 10) \<in> set ''0123456789''" by (rule hex_digit_decimal)
    with False 1 show ?thesis by (subst str_nat.simps) auto
  qed
qed

lemma star_not_in_count_line:
  "CHR ''*'' \<notin> set (str_nat n @ '' commands processed.'' @ nl)"
  using str_nat_digits [of n] by (auto simp: nl_def)

lemma trailer_eq:
  "trailer n ret =
     ret @ str_nat n @ '' commands processed.'' @ nl
       @ (if contains ''*** FAIL ***'' ret \<or> contains ''*** ERROR ***'' ret
          then ''*** AT LEAST ONE COMMAND FAILED ***'' else ''No errors detected'')"
proof -
  have a: "contains ''*** FAIL ***'' (ret @ str_nat n @ '' commands processed.'' @ nl)
             = contains ''*** FAIL ***'' ret"
    by (rule contains_append_tail) (use star_not_in_count_line [of n] in simp_all)
  have b: "contains ''*** ERROR ***'' (ret @ str_nat n @ '' commands processed.'' @ nl)
             = contains ''*** ERROR ***'' ret"
    by (rule contains_append_tail) (use star_not_in_count_line [of n] in simp_all)
  show ?thesis unfolding trailer_def Let_def a b by simp
qed

subsection \<open>Rows that name an unknown register\<close>

lemma do_script_line_lookup_fails:
  assumes "lookup_reg (float_repr E) (product_regs E) line = Inl e"
  shows "do_script_line E line preserve w =
     (Inr (preserve @ ''Unexpected register name: '' @ exn_msg e @ ''. *** FAIL ***''),
      w\<lparr>comm_status := ''Unexpected register name: '' @ exn_msg e @ ''. *** FAIL ***'',
        output_box := preserve @ ''Unexpected register name: '' @ exn_msg e @ ''. *** FAIL ***'',
        comms_box := ''Unexpected register name: '' @ exn_msg e @ ''. *** FAIL ***''\<rparr>)"
  using assms by (simp add: do_script_line_def refresh_def Let_def)

lemma lookup_reg_unknown:
  "resolve regs name = None \<Longrightarrow>
   lookup_reg fr regs (PStr name # rest) = Inl (Exn KeyError (repr_str name))"
  by (simp add: lookup_reg_def)

lemma run_rows_lookup_fails:
  assumes "5 \<le> length row" and "coerce_row row = Inr line"
    and "lookup_reg (float_repr E) (product_regs E) line = Inl e"
  shows "run_rows E (row # rows) ret w =
     run_rows E rows
       (ret @ ''Unexpected register name: '' @ exn_msg e @ ''. *** FAIL ***'' @ nl)
       (w\<lparr>comm_status := ''Unexpected register name: '' @ exn_msg e @ ''. *** FAIL ***'',
          output_box := ret @ ''Unexpected register name: '' @ exn_msg e @ ''. *** FAIL ***'',
          comms_box := ''Unexpected register name: '' @ exn_msg e @ ''. *** FAIL ***''\<rparr>)"
proof -
  have "\<not> length row < 5" using assms(1) by simp
  then show ?thesis
    using assms(2) do_script_line_lookup_fails [OF assms(3)]
    by (simp add: refresh_def Let_def nl_def)
qed

text \<open>
  C3 (amended). For every script row whose register name is absent from the active
  dictionary, \<^verbatim>\<open>do_script_line\<close> appends
  \<^verbatim>\<open>Unexpected register name: <repr of the name>. *** FAIL ***\<close> to the report it was
  given, which it keeps, makes no instrument call and leaves the device as it was; and
  \<^verbatim>\<open>run_script\<close> goes on with the next row, the report extended by that text and a
  newline.
\<close>

theorem unknown_register_row:
  assumes "resolve (product_regs E) name = None"
  shows "fst (do_script_line E (PStr name # rest) preserve w) =
           Inr (preserve @ ''Unexpected register name: '' @ repr_str name @ ''. *** FAIL ***'')
    \<and> calls (snd (do_script_line E (PStr name # rest) preserve w)) = calls w
    \<and> dev (snd (do_script_line E (PStr name # rest) preserve w)) = dev w
    \<and> (5 \<le> length row \<and> coerce_row row = Inr (PStr name # rest) \<longrightarrow>
         run_rows E (row # rows) preserve w =
           run_rows E rows
             (preserve @ ''Unexpected register name: '' @ repr_str name @ ''. *** FAIL ***'' @ nl)
             (snd (do_script_line E (PStr name # rest) preserve w)))"
proof -
  have l: "lookup_reg (float_repr E) (product_regs E) (PStr name # rest) = Inl (Exn KeyError (repr_str name))"
    using assms by (rule lookup_reg_unknown)
  show ?thesis
    using do_script_line_lookup_fails [OF l, of preserve w] run_rows_lookup_fails [OF _ _ l, of row rows preserve w]
    by simp
qed

lemmas script_eval =
  do_script_line_def lookup_reg_def resolve_def hypr6000_regs_def example_env_def example_world_def
  example_read_def example_eval_def try_pure_def idx_def line_desc_def py_strip_def py_isspace_def
  headline_def iteration_def transfer_def read_register_def read_registers_def write_register_def
  check_assertion_def refresh_def Let_def nl_def sq_def dq_def str_int_def str_nat.simps hex_digit_def
  py_lower_def lower_char_def repr_str_def repr_char_def py_printable_def not_supported_def

lemmas rows_eval =
  coerce_ladder parse_int_def is_float_literal_def drop_sign_def is_digit_def digit_val_def
  decimal_ok_def exponent_ok_def exn_bind_def str_row_def csv_unquoted_def readlines_def
  executable_def

theorem unknown_register_row_witness:
  "resolve (product_regs example_env) ''NOPE'' = None
   \<and> 5 \<le> length [''NOPE'', ''1'', ''false'', ''0'', ''1'', '''']
   \<and> coerce_row [''NOPE'', ''1'', ''false'', ''0'', ''1'', '''']
       = Inr [PStr ''NOPE'', PInt 1, PBool False, PInt 0, PInt 1, PStr '''']
   \<and> fst (do_script_line example_env
         [PStr ''NOPE'', PInt 1, PBool False, PInt 0, PInt 1, PStr ''''] ''abc'' example_world)
       = Inr (''abcUnexpected register name: '' @ sq @ ''NOPE'' @ sq @ ''. *** FAIL ***'')
   \<and> calls (snd (do_script_line example_env
         [PStr ''NOPE'', PInt 1, PBool False, PInt 0, PInt 1, PStr ''''] ''abc'' example_world)) = []
   \<and> fst (run_rows example_env [[''NOPE'', ''1'', ''false'', ''0'', ''1'', '''']] ''abc'' example_world)
       = Inr (''abcUnexpected register name: '' @ sq @ ''NOPE'' @ sq @ ''. *** FAIL ***'' @ nl)"
proof -
  have a: "resolve (product_regs example_env) ''NOPE'' = None"
    by (simp add: example_env_def resolve_def hypr6000_regs_def)
  have b: "coerce_row [''NOPE'', ''1'', ''false'', ''0'', ''1'', '''']
             = Inr [PStr ''NOPE'', PInt 1, PBool False, PInt 0, PInt 1, PStr '''']"
    by (simp add: rows_eval script_eval)
  have c: "repr_str ''NOPE'' = sq @ ''NOPE'' @ sq"
    by (simp add: repr_str_def repr_char_def py_printable_def sq_def Let_def)
  from unknown_register_row [OF a,
      of "[PInt 1, PBool False, PInt 0, PInt 1, PStr '''']" "''abc''" example_world
         "[''NOPE'', ''1'', ''false'', ''0'', ''1'', '''']" "[]"] b c
  show ?thesis using a by (simp add: example_world_def)
qed

text \<open>
  C3, as stated, fails: the text appended for the unknown name \<open>NOPE\<close> does not contain
  \<^verbatim>\<open>*** ERROR *** unknown key NOPE\<close>.
\<close>

theorem unknown_key_marker_counterexample:
  "fst (do_script_line example_env
      [PStr ''NOPE'', PInt 1, PBool False, PInt 0, PInt 1, PStr ''''] ''abc'' example_world)
     = Inr (''abcUnexpected register name: '' @ sq @ ''NOPE'' @ sq @ ''. *** FAIL ***'')
   \<and> \<not> contains ''*** ERROR *** unknown key NOPE''
         (''abcUnexpected register name: '' @ sq @ ''NOPE'' @ sq @ ''. *** FAIL ***'')"
  by (simp add: script_eval)

subsection \<open>The unknown name in the V1.01 build\<close>

lemma do_script_line_v101_unknown_key:
  assumes "resolve (product_regs E) name = None"
  shows "do_script_line_v101 E (PStr name # rest) preserve w =
     (Inr (''*** ERROR *** unknown key '' @ name),
      w\<lparr>output_box := ''*** ERROR *** unknown key '' @ name\<rparr>)"
  using assms by (simp add: do_script_line_v101_def lookup_reg_def Let_def)

lemma do_script_line_v101_drops_report:
  "fst (do_script_line_v101 example_env
      [PStr ''NOPE'', PInt 1, PBool False, PInt 0, PInt 1, PStr []] ''abc'' example_world)
   = Inr ''*** ERROR *** unknown key NOPE''"
proof -
  have "resolve (product_regs example_env) ''NOPE'' = None"
    by (simp add: example_env_def resolve_def hypr6000_regs_def)
  then show ?thesis by (simp add: do_script_line_v101_unknown_key)
qed

subsection \<open>Transport errors\<close>










subsection \<open>Assertions\<close>



lemma check_assertion_other_errors_propagate:
  assumes "assertion \<noteq> []" and "py_eval E assertion result = Inl e"
    and "kind_of e \<noteq> NameError" and "kind_of e \<noteq> TypeError" and "kind_of e \<noteq> SyntaxError"
  shows "check_assertion E assertion result ret = Inl e"
  using assms by (simp add: check_assertion_def)

subsection \<open>The trailer of the report\<close>

lemma run_script_report:
  assumes "run_rows E (csv_reader E (filter executable (readlines text))) [] w = (Inr body, w1)"
  shows "run_script E text w =
     (None, refresh (trailer (length (filter executable (readlines text))) body) w1)"
  using assms by (simp add: run_script_def Let_def)

lemma run_script_returns_report:
  assumes "fst (run_script E text w) = None"
  shows "\<exists>body w1.
     run_rows E (csv_reader E (filter executable (readlines text))) [] w = (Inr body, w1)"
proof (cases "run_rows E (csv_reader E (filter executable (readlines text))) [] w")
  case (Pair r w1)
  with assms show ?thesis
    by (cases r) (simp_all add: run_script_def Let_def)
qed

text \<open>
  C6. When all rows of a script have been processed, with \<open>body\<close> the report they built,
  the report shown ends with the number of commands, \<^verbatim>\<open>commands processed.\<close>, a newline,
  and then \<^verbatim>\<open>*** AT LEAST ONE COMMAND FAILED ***\<close> if \<^verbatim>\<open>*** FAIL ***\<close> or
  \<^verbatim>\<open>*** ERROR ***\<close> occurs anywhere in \<open>body\<close>, and \<^verbatim>\<open>No errors detected\<close> otherwise.
\<close>

theorem run_script_trailer:
  assumes "run_rows E (csv_reader E (filter executable (readlines text))) [] w = (Inr body, w1)"
  shows "fst (run_script E text w) = None
    \<and> output_box (snd (run_script E text w)) =
        body @ str_nat (length (filter executable (readlines text)))
          @ '' commands processed.'' @ nl
          @ (if contains ''*** FAIL ***'' body \<or> contains ''*** ERROR ***'' body
             then ''*** AT LEAST ONE COMMAND FAILED ***'' else ''No errors detected'')"
  unfolding run_script_report [OF assms] trailer_eq by (simp add: refresh_def)

lemma example_lines:
  "filter executable (readlines example_script) = [''BUS_VOLTAGE,1,false,0,1,'' @ nl]"
  by (simp add: example_script_def readlines_def executable_def py_strip_def py_isspace_def nl_def)

lemma example_rows:
  "csv_unquoted [''BUS_VOLTAGE,1,false,0,1,'' @ nl]
     = [[''BUS_VOLTAGE'', ''1'', ''false'', ''0'', ''1'', []]]"
  by (simp add: csv_unquoted_def nl_def)

lemma example_row_coerced:
  "coerce_row [''BUS_VOLTAGE'', ''1'', ''false'', ''0'', ''1'', []]
     = Inr [PStr ''BUS_VOLTAGE'', PInt 1, PBool False, PInt 0, PInt 1, PStr []]"
  by (simp add: rows_eval script_eval)

lemma example_line_run:
  "do_script_line example_env
     [PStr ''BUS_VOLTAGE'', PInt 1, PBool False, PInt 0, PInt 1, PStr []] [] example_world
   = (Inr (''Read from BUS_VOLTAGE: 2400'' @ nl),
      example_world\<lparr>dev := 1, calls := [ReadRegister 45],
        output_box := ''Read from BUS_VOLTAGE: 2400'' @ nl, slept := [PInt 0]\<rparr>)"
  by (simp add: script_eval)

lemma csv_reader_example: "csv_reader example_env = csv_unquoted"
  by (simp add: example_env_def)

lemma refresh_example_world: "refresh [] example_world = example_world"
  by (simp add: refresh_def example_world_def)

theorem run_script_trailer_witness:
  "run_rows example_env
     (csv_reader example_env (filter executable (readlines example_script))) [] example_world
     = (Inr (''Read from BUS_VOLTAGE: 2400'' @ nl),
        example_world\<lparr>dev := 1, calls := [ReadRegister 45],
          output_box := ''Read from BUS_VOLTAGE: 2400'' @ nl, slept := [PInt 0]\<rparr>)
   \<and> fst (run_script example_env example_script example_world) = None
   \<and> output_box (snd (run_script example_env example_script example_world))
     = ''Read from BUS_VOLTAGE: 2400'' @ nl @ ''1 commands processed.'' @ nl @ ''No errors detected''"
proof -
  have rows: "run_rows example_env
     (csv_reader example_env (filter executable (readlines example_script))) [] example_world
     = (Inr (''Read from BUS_VOLTAGE: 2400'' @ nl),
        example_world\<lparr>dev := 1, calls := [ReadRegister 45],
          output_box := ''Read from BUS_VOLTAGE: 2400'' @ nl, slept := [PInt 0]\<rparr>)"
    unfolding csv_reader_example example_lines example_rows
    by (simp add: example_row_coerced refresh_example_world example_line_run nl_def
          del: coerce_row.simps)
  have nf: "\<not> contains ''*** FAIL ***'' (''Read from BUS_VOLTAGE: 2400'' @ nl)"
    by (simp add: nl_def)
  have ne: "\<not> contains ''*** ERROR ***'' (''Read from BUS_VOLTAGE: 2400'' @ nl)"
    by (simp add: nl_def)
  have one: "length (filter executable (readlines example_script)) = 1"
    by (simp add: example_lines)
  have s1: "str_nat 1 = ''1''" by (simp add: str_nat.simps hex_digit_def)
  from run_script_trailer [OF rows] nf ne one s1 rows show ?thesis by simp
qed

subsection \<open>The command count\<close>

lemma run_rows_nothing_runs:
  assumes "\<forall>row\<in>set rows. length row < 5
             \<or> (\<exists>name rest. coerce_row row = Inr (PStr name # rest)
                   \<and> resolve (product_regs E) name = None)"
  shows "\<exists>body w1. run_rows E rows ret w = (Inr body, w1) \<and> calls w1 = calls w"
  using assms
proof (induction rows arbitrary: ret w)
  case Nil
  show ?case by simp
next
  case (Cons row rows)
  then have rest: "\<forall>row\<in>set rows. length row < 5
             \<or> (\<exists>name rest. coerce_row row = Inr (PStr name # rest)
                   \<and> resolve (product_regs E) name = None)"
    by simp
  show ?case
  proof (cases "length row < 5")
    case True
    obtain body w1 where
      "run_rows E rows (ret @ ''not enough columns in '' @ dq @ str_row row @ dq @ nl)
         (refresh ret w) = (Inr body, w1)"
      "calls w1 = calls (refresh ret w)"
      using Cons.IH [OF rest] by blast
    with True show ?thesis by (simp add: refresh_def)
  next
    case False
    with Cons.prems obtain name rest' where
      c: "coerce_row row = Inr (PStr name # rest')" and
      u: "resolve (product_regs E) name = None"
      by auto
    have l: "lookup_reg (float_repr E) (product_regs E) (PStr name # rest') = Inl (Exn KeyError (repr_str name))"
      using u by (rule lookup_reg_unknown)
    from False have five: "5 \<le> length row" by simp
    note step = run_rows_lookup_fails [OF five c l, of rows ret w]
    obtain body w1 where
      "run_rows E rows
         (ret @ ''Unexpected register name: '' @ exn_msg (Exn KeyError (repr_str name))
            @ ''. *** FAIL ***'' @ nl)
         (w\<lparr>comm_status := ''Unexpected register name: ''
               @ exn_msg (Exn KeyError (repr_str name)) @ ''. *** FAIL ***'',
            output_box := ret @ ''Unexpected register name: ''
               @ exn_msg (Exn KeyError (repr_str name)) @ ''. *** FAIL ***'',
            comms_box := ''Unexpected register name: ''
               @ exn_msg (Exn KeyError (repr_str name)) @ ''. *** FAIL ***''\<rparr>)
         = (Inr body, w1)"
      "calls w1 = calls (w\<lparr>comm_status := ''Unexpected register name: ''
               @ exn_msg (Exn KeyError (repr_str name)) @ ''. *** FAIL ***'',
            output_box := ret @ ''Unexpected register name: ''
               @ exn_msg (Exn KeyError (repr_str name)) @ ''. *** FAIL ***'',
            comms_box := ''Unexpected register name: ''
               @ exn_msg (Exn KeyError (repr_str name)) @ ''. *** FAIL ***''\<rparr>)"
      using Cons.IH [OF rest] by blast
    with step show ?thesis by simp
  qed
qed

lemma run_script_output_shape:
  assumes "run_rows E (csv_reader E (filter executable (readlines text))) [] w = (Inr body, w1)"
  shows "\<exists>verdict. output_box (snd (run_script E text w)) =
     body @ str_nat (length (filter executable (readlines text)))
       @ '' commands processed.'' @ nl @ verdict"
proof -
  have "output_box (snd (run_script E text w)) =
      trailer (length (filter executable (readlines text))) body"
    unfolding run_script_report [OF assms] by (simp add: refresh_def)
  then show ?thesis unfolding trailer_eq by blast
qed

text \<open>
  C10. The number in the trailer is the number of lines of the script text that are not
  blank and do not start with \<open>#\<close>: whenever \<^verbatim>\<open>run_script\<close> returns, the report shown ends
  with that number, \<^verbatim>\<open>commands processed.\<close> and the verdict. It is not the number of
  commands carried out: when every row has fewer than five fields or names an unknown
  register, the run returns, no instrument call is made, and the trailer still counts
  every such line.
\<close>

theorem trailer_counts_lines:
  "(fst (run_script E text w) = None \<longrightarrow>
      (\<exists>body verdict. output_box (snd (run_script E text w)) =
         body @ str_nat (length (filter executable (readlines text)))
           @ '' commands processed.'' @ nl @ verdict))
   \<and> ((\<forall>row\<in>set (csv_reader E (filter executable (readlines text))).
          length row < 5
          \<or> (\<exists>name rest. coerce_row row = Inr (PStr name # rest)
                \<and> resolve (product_regs E) name = None)) \<longrightarrow>
        fst (run_script E text w) = None
        \<and> calls (snd (run_script E text w)) = calls w
        \<and> (\<exists>body verdict. output_box (snd (run_script E text w)) =
             body @ str_nat (length (filter executable (readlines text)))
               @ '' commands processed.'' @ nl @ verdict))"
proof (intro conjI impI)
  assume "fst (run_script E text w) = None"
  then obtain body w1 where
    r: "run_rows E (csv_reader E (filter executable (readlines text))) [] w = (Inr body, w1)"
    using run_script_returns_report by blast
  show "\<exists>body verdict. output_box (snd (run_script E text w)) =
         body @ str_nat (length (filter executable (readlines text)))
           @ '' commands processed.'' @ nl @ verdict"
    using run_script_output_shape [OF r] by blast
next
  assume h: "\<forall>row\<in>set (csv_reader E (filter executable (readlines text))).
          length row < 5
          \<or> (\<exists>name rest. coerce_row row = Inr (PStr name # rest)
                \<and> resolve (product_regs E) name = None)"
  obtain body w1 where
    r: "run_rows E (csv_reader E (filter executable (readlines text))) [] w = (Inr body, w1)"
    and c: "calls w1 = calls w"
    using run_rows_nothing_runs [OF h] by blast
  show "fst (run_script E text w) = None"
    unfolding run_script_report [OF r] by simp
  show "calls (snd (run_script E text w)) = calls w"
    unfolding run_script_report [OF r] using c by (simp add: refresh_def)
  show "\<exists>body verdict. output_box (snd (run_script E text w)) =
         body @ str_nat (length (filter executable (readlines text)))
           @ '' commands processed.'' @ nl @ verdict"
    using run_script_output_shape [OF r] by blast
qed

lemma skipped_lines:
  "filter executable (readlines skipped_script) = [''FOO,1'' @ nl, ''NOPE,1,false,0,1,'' @ nl]"
  by (simp add: skipped_script_def readlines_def executable_def py_strip_def py_isspace_def
        nl_def)

lemma skipped_rows:
  "csv_unquoted [''FOO,1'' @ nl, ''NOPE,1,false,0,1,'' @ nl]
     = [[''FOO'', ''1''], [''NOPE'', ''1'', ''false'', ''0'', ''1'', []]]"
  by (simp add: csv_unquoted_def nl_def)

lemma skipped_row_coerced:
  "coerce_row [''NOPE'', ''1'', ''false'', ''0'', ''1'', []]
     = Inr [PStr ''NOPE'', PInt 1, PBool False, PInt 0, PInt 1, PStr []]"
  by (simp add: rows_eval script_eval)

lemma skipped_run:
  "run_rows example_env [[''FOO'', ''1''], [''NOPE'', ''1'', ''false'', ''0'', ''1'', []]] []
     example_world
   = (Inr (''not enough columns in '' @ dq @ ''['' @ sq @ ''FOO'' @ sq @ '', '' @ sq @ ''1'' @ sq
            @ '']'' @ dq @ nl
            @ ''Unexpected register name: '' @ sq @ ''NOPE'' @ sq @ ''. *** FAIL ***'' @ nl),
      example_world
        \<lparr>comm_status := ''Unexpected register name: '' @ sq @ ''NOPE'' @ sq @ ''. *** FAIL ***'',
         output_box := ''not enough columns in '' @ dq @ ''['' @ sq @ ''FOO'' @ sq @ '', ''
            @ sq @ ''1'' @ sq @ '']'' @ dq @ nl
            @ ''Unexpected register name: '' @ sq @ ''NOPE'' @ sq @ ''. *** FAIL ***'',
         comms_box := ''Unexpected register name: '' @ sq @ ''NOPE'' @ sq @ ''. *** FAIL ***''\<rparr>)"
  by (simp add: skipped_row_coerced script_eval str_row_def del: coerce_row.simps)

theorem trailer_counts_lines_witness:
  "list_all (\<lambda>row. length row < 5
      \<or> (\<exists>name rest. coerce_row row = Inr (PStr name # rest)
            \<and> resolve (product_regs example_env) name = None))
     (csv_reader example_env (filter executable (readlines skipped_script)))
   \<and> length (filter executable (readlines skipped_script)) = 2
   \<and> fst (run_script example_env skipped_script example_world) = None
   \<and> calls (snd (run_script example_env skipped_script example_world)) = []
   \<and> (\<exists>body verdict. output_box (snd (run_script example_env skipped_script example_world)) =
         body @ ''2 commands processed.'' @ nl @ verdict)"
proof -
  have u: "resolve (product_regs example_env) ''NOPE'' = None"
    by (simp add: example_env_def resolve_def hypr6000_regs_def)
  have h: "\<forall>row\<in>set (csv_reader example_env (filter executable (readlines skipped_script))).
      length row < 5
      \<or> (\<exists>name rest. coerce_row row = Inr (PStr name # rest)
            \<and> resolve (product_regs example_env) name = None)"
    unfolding csv_reader_example skipped_lines skipped_rows
    using u by (simp add: skipped_row_coerced del: coerce_row.simps)
  have two: "length (filter executable (readlines skipped_script)) = 2"
    by (simp add: skipped_lines)
  have s2: "str_nat 2 = ''2''" by (simp add: str_nat.simps hex_digit_def)
  have c0: "calls example_world = []" by (simp add: example_world_def)
  note t = trailer_counts_lines [of example_env skipped_script example_world]
  from t h have n: "fst (run_script example_env skipped_script example_world) = None"
    by blast
  from t h c0 have c: "calls (snd (run_script example_env skipped_script example_world)) = []"
    by simp
  from t n have "\<exists>body verdict.
      output_box (snd (run_script example_env skipped_script example_world)) =
         body @ str_nat (length (filter executable (readlines skipped_script)))
           @ '' commands processed.'' @ nl @ verdict"
    by blast
  then have o: "\<exists>body verdict.
      output_box (snd (run_script example_env skipped_script example_world)) =
         body @ ''2 commands processed.'' @ nl @ verdict"
    unfolding two s2 by simp
  from h have h': "list_all (\<lambda>row. length row < 5
      \<or> (\<exists>name rest. coerce_row row = Inr (PStr name # rest)
            \<and> resolve (product_regs example_env) name = None))
     (csv_reader example_env (filter executable (readlines skipped_script)))"
    by (simp only: list_all_iff)
  from h' two n c o show ?thesis by blast
qed

lemma skipped_script_report:
  "output_box (snd (run_script example_env skipped_script example_world))
   = ''not enough columns in '' @ dq @ ''['' @ sq @ ''FOO'' @ sq @ '', '' @ sq @ ''1'' @ sq
       @ '']'' @ dq @ nl
       @ ''Unexpected register name: '' @ sq @ ''NOPE'' @ sq @ ''. *** FAIL ***'' @ nl
       @ ''2 commands processed.'' @ nl @ ''*** AT LEAST ONE COMMAND FAILED ***''"
proof -
  have r: "run_rows example_env
      (csv_reader example_env (filter executable (readlines skipped_script))) [] example_world
    = (Inr (''not enough columns in '' @ dq @ ''['' @ sq @ ''FOO'' @ sq @ '', '' @ sq @ ''1'' @ sq
            @ '']'' @ dq @ nl
            @ ''Unexpected register name: '' @ sq @ ''NOPE'' @ sq @ ''. *** FAIL ***'' @ nl),
      example_world
        \<lparr>comm_status := ''Unexpected register name: '' @ sq @ ''NOPE'' @ sq @ ''. *** FAIL ***'',
         output_box := ''not enough columns in '' @ dq @ ''['' @ sq @ ''FOO'' @ sq @ '', ''
            @ sq @ ''1'' @ sq @ '']'' @ dq @ nl
            @ ''Unexpected register name: '' @ sq @ ''NOPE'' @ sq @ ''. *** FAIL ***'',
         comms_box := ''Unexpected register name: '' @ sq @ ''NOPE'' @ sq @ ''. *** FAIL ***''\<rparr>)"
    unfolding csv_reader_example skipped_lines skipped_rows by (rule skipped_run)
  have "str_nat 2 = ''2''" by (simp add: str_nat.simps hex_digit_def)
  then have s2: "str_nat (Suc (Suc 0)) = ''2''" by (simp add: numeral_2_eq_2)
  show ?thesis
    unfolding run_script_report [OF r] trailer_eq skipped_lines
    by (simp add: refresh_def s2 sq_def dq_def nl_def)
qed


end
